theory Spec2Isabelle
  imports Complex_Main "HOL-Library.AList" "HOL-Library.Log_Nat"
begin

section \<open>Data model\<close>

text \<open>
  JSON documents as Python's \<open>json\<close> module represents them: \<open>None\<close>, \<open>bool\<close>, \<open>int\<close>,
  \<open>float\<close>, \<open>str\<close>, \<open>list\<close> and \<open>dict\<close> (a dict keeps insertion order, so an object is an
  association list). A float is a finite double, held as its exact rational value.
\<close>

type_synonym pyfloat = rat

datatype json =
    JNull
  | JBool bool
  | JInt int
  | JFloat pyfloat
  | JString string
  | JArray "json list"
  | JObject "(string \<times> json) list"

text \<open>A tool as a backend advertises it (\<open>tools_result.tools\<close>).\<close>

record Tool =
  name :: string
  description :: "string option"
  inputSchema :: json

text \<open>\<open>MCPServerConfig\<close> (session.py), with the types of its annotations.\<close>

record MCPServerConfig =
  name :: string
  script_path :: string
  enabled :: bool
  timeout :: int
  max_retries :: int
  health_check_interval :: int
  metadata :: "(string \<times> json) list"

text \<open>
  The value stored under a server's name in \<open>server_sessions\<close>. \<open>initialize_servers\<close> is the
  only place that builds one, always with these five keys; the two handles stand for the
  \<open>ClientSession\<close> and the \<open>stdio_client\<close> context.
\<close>

record session_info =
  session :: nat
  stdio :: nat
  tools :: "Tool list"
  healthy :: bool
  last_check :: pyfloat

text \<open>
  \<open>server_sessions\<close> is a dict: iteration follows insertion order and an assignment to a
  key already present replaces its value in place, which is \<^const>\<open>AList.update\<close>.
\<close>

type_synonym sessions = "(string \<times> session_info) list"

record MCPSessionManager =
  server_configs :: "MCPServerConfig list"
  server_sessions :: sessions

definition MCPSessionManager_init :: MCPSessionManager where
  "MCPSessionManager_init = \<lparr>server_configs = [], server_sessions = []\<rparr>"

text \<open>
  How a backend is started. The environment passed along, a copy of \<open>os.environ\<close>, is
  the same for every backend and left out.
\<close>

record StdioServerParameters =
  command :: string
  args :: "string list"

text \<open>One item of \<open>result.content\<close>: it has a \<open>text\<close> attribute, or only its \<open>str()\<close>.\<close>

datatype content = TextContent string | OtherContent string

text \<open>
  The model's side (app.py). A content block of a response is a text block or a tool-use
  block (\<open>id\<close>, \<open>name\<close>, \<open>input\<close>). A turn of the conversation history is one of the three
  dicts the client appends: \<open>{"role": "user", "content": text}\<close>,
  \<open>{"role": "assistant", "content": blocks}\<close> and \<open>{"role": "user", "content": tool_results}\<close>,
  a tool result being the \<open>tool_use_id\<close> and the text of its single text item.
\<close>

datatype content_block = TextBlock string | ToolUseBlock string string json

datatype message =
    UserText string
  | AssistantBlocks "content_block list"
  | UserToolResults "(string \<times> string) list"

record response =
  stop_reason :: string
  blocks :: "content_block list"

text \<open>The keyword arguments of \<open>messages.create\<close>; \<open>tools\<close> is absent in the second call.\<close>

record model_request =
  model :: string
  max_tokens :: int
  system :: string
  messages :: "message list"
  request_tools :: "json list option"

text \<open>
  What a call may raise, as \<open>chat_with_claude\<close> tells them apart: the two classes it
  retries, and any other \<open>Exception\<close> with its type name and \<open>str(e)\<close>.
\<close>

datatype exn = APITimeoutError | RateLimitError | OtherError string string

text \<open>
  What \<open>json.loads\<close> may raise: \<open>JSONDecodeError\<close> on a text that is not JSON, or another
  \<open>Exception\<close>, given by its type name and \<open>str(e)\<close> (\<open>RecursionError\<close> on a text nested
  too deeply, \<open>ValueError\<close> on an integer literal longer than the interpreter's limit
  of digits).
\<close>

datatype loads_error = JSONDecodeError | OtherException string string

text \<open>
  Everything outside the process. Each operation either raises (\<open>Inl\<close>) or returns. The
  first argument of an operation counts the steps taken so far, so that the same request
  may be answered differently later on. \<open>json_loads\<close> is \<open>json.loads\<close>; \<open>json_dumps\<close> is
  \<open>json.dumps\<close> with \<open>indent=2\<close>. A backend operation that raises carries \<open>str(e)\<close> of
  the exception.
\<close>

record env =
  stdio_enter :: "nat \<Rightarrow> StdioServerParameters \<Rightarrow> string + nat"
  session_initialize :: "nat \<Rightarrow> nat \<Rightarrow> string + nat"
  list_tools :: "nat \<Rightarrow> nat \<Rightarrow> string + Tool list"
  call_tool :: "nat \<Rightarrow> nat \<Rightarrow> string \<Rightarrow> json \<Rightarrow> string + content list"
  messages_create :: "nat \<Rightarrow> model_request \<Rightarrow> exn + response"
  time_time :: "nat \<Rightarrow> pyfloat"
  json_loads :: "string \<Rightarrow> loads_error + json"
  json_dumps :: "json \<Rightarrow> string"

section \<open>Session manager (session.py)\<close>

subsection \<open>initialize_servers\<close>

definition endswith :: "string \<Rightarrow> string \<Rightarrow> bool" where
  "endswith s suffix \<longleftrightarrow>
     length suffix \<le> length s \<and> drop (length s - length suffix) s = suffix"

text \<open>A module path is run with \<open>python -m\<close>, anything else as a script.\<close>

definition server_params :: "MCPServerConfig \<Rightarrow> StdioServerParameters" where
  "server_params server_config =
     (if CHR ''.'' \<in> set (script_path server_config)
         \<and> \<not> endswith (script_path server_config) ''.py''
      then \<lparr>command = ''python'', args = [''-m'', script_path server_config]\<rparr>
      else \<lparr>command = ''python'', args = [script_path server_config]\<rparr>)"

text \<open>
  The body of the \<open>try\<close>: open the channel, run the handshake, fetch the tool list and
  build the session entry. The first step that raises ends it.
\<close>

definition launch :: "env \<Rightarrow> nat \<Rightarrow> MCPServerConfig \<Rightarrow> string + session_info" where
  "launch e i server_config =
     (case stdio_enter e i (server_params server_config) of
        Inl err \<Rightarrow> Inl err
      | Inr stdio_h \<Rightarrow>
          (case session_initialize e i stdio_h of
             Inl err \<Rightarrow> Inl err
           | Inr session_h \<Rightarrow>
               (case list_tools e i session_h of
                  Inl err \<Rightarrow> Inl err
                | Inr ts \<Rightarrow>
                    Inr \<lparr>session = session_h, stdio = stdio_h, tools = ts,
                         healthy = True, last_check = time_time e i\<rparr>)))"

text \<open>
  The loop over \<open>server_configs\<close>; \<open>i\<close> is the step at which the current descriptor is
  processed. It returns the descriptors (a failed one with \<open>enabled = False\<close>) and the
  session registry.
\<close>

fun initialize_servers_loop ::
  "env \<Rightarrow> nat \<Rightarrow> MCPServerConfig list \<Rightarrow> sessions \<Rightarrow> MCPServerConfig list \<times> sessions" where
  "initialize_servers_loop e i [] ss = ([], ss)"
| "initialize_servers_loop e i (c # cs) ss =
     (if \<not> enabled c then
        (let (cs', ss') = initialize_servers_loop e (Suc i) cs ss in (c # cs', ss'))
      else
        (case launch e i c of
           Inr info \<Rightarrow>
             (let (cs', ss') =
                initialize_servers_loop e (Suc i) cs (AList.update (MCPServerConfig.name c) info ss)
              in (c # cs', ss'))
         | Inl err \<Rightarrow>
             (let (cs', ss') = initialize_servers_loop e (Suc i) cs ss
              in (c\<lparr>enabled := False\<rparr> # cs', ss'))))"

definition initialize_servers :: "env \<Rightarrow> nat \<Rightarrow> MCPSessionManager \<Rightarrow> MCPSessionManager" where
  "initialize_servers e i mgr =
     (let (cs', ss') = initialize_servers_loop e i (server_configs mgr) (server_sessions mgr)
      in mgr\<lparr>server_configs := cs', server_sessions := ss'\<rparr>)"

subsection \<open>health_check_all\<close>

text \<open>
  The body of the \<open>try\<close> in \<open>health_check_all\<close>: two assignments, no call to the backend.
  Its result type admits a failure so that the \<open>except\<close> branch of the loop can be
  written down.
\<close>

definition health_probe :: "pyfloat \<Rightarrow> session_info \<Rightarrow> string + session_info" where
  "health_probe now info = Inr (info\<lparr>healthy := True, last_check := now\<rparr>)"

fun health_check_loop :: "env \<Rightarrow> nat \<Rightarrow> sessions \<Rightarrow> sessions" where
  "health_check_loop e i [] = []"
| "health_check_loop e i ((server_name, info) # rest) =
     (server_name,
      (case health_probe (time_time e i) info of
         Inr info' \<Rightarrow> info'
       | Inl err \<Rightarrow> info\<lparr>healthy := False\<rparr>))
     # health_check_loop e (Suc i) rest"

definition health_check_all :: "env \<Rightarrow> nat \<Rightarrow> MCPSessionManager \<Rightarrow> MCPSessionManager" where
  "health_check_all e i mgr =
     mgr\<lparr>server_sessions := health_check_loop e i (server_sessions mgr)\<rparr>"

subsection \<open>get_all_tools\<close>

definition tool_def :: "Tool \<Rightarrow> json" where
  "tool_def tool =
     JObject [(''name'', JString (Tool.name tool)),
              (''description'', (case description tool of None \<Rightarrow> JNull | Some d \<Rightarrow> JString d)),
              (''input_schema'', inputSchema tool)]"

text \<open>The two nested loops, appending to \<open>all_tools\<close>.\<close>

fun append_tools :: "Tool list \<Rightarrow> json list \<Rightarrow> json list" where
  "append_tools [] all_tools = all_tools"
| "append_tools (tool # ts) all_tools = append_tools ts (all_tools @ [tool_def tool])"

fun get_all_tools_loop :: "sessions \<Rightarrow> json list \<Rightarrow> json list" where
  "get_all_tools_loop [] all_tools = all_tools"
| "get_all_tools_loop ((server_name, info) # rest) all_tools =
     get_all_tools_loop rest
       (if healthy info then append_tools (tools info) all_tools else all_tools)"

definition get_all_tools :: "MCPSessionManager \<Rightarrow> json list" where
  "get_all_tools mgr = get_all_tools_loop (server_sessions mgr) []"

text \<open>
  The catalog in the spec's words: the sessions with \<open>healthy\<close> set, in registration
  order, each contributing its tools in order.
\<close>

definition allTools_spec :: "sessions \<Rightarrow> json list" where
  "allTools_spec ss =
     concat (map (\<lambda>(server_name, info). map tool_def (tools info))
                 (filter (\<lambda>(server_name, info). healthy info) ss))"

subsection \<open>execute_tool\<close>

fun content_str :: "content \<Rightarrow> string" where
  "content_str (TextContent t) = t"
| "content_str (OtherContent r) = r"

fun join_content :: "content list \<Rightarrow> string \<Rightarrow> string" where
  "join_content [] content_text = content_text"
| "join_content (c # cs) content_text = join_content cs (content_text @ content_str c)"

definition tool_not_found :: "string \<Rightarrow> json" where
  "tool_not_found tool_name =
     JObject [(''error'', JString (''Tool '' @ tool_name @ '' not found on any healthy server''))]"

definition tool_execution_failed :: "string \<Rightarrow> json" where
  "tool_execution_failed err = JObject [(''error'', JString (''Tool execution failed: '' @ err))]"

text \<open>
  What \<open>execute_tool\<close> makes of a backend call that returned. \<open>json.loads\<close> is called
  inside two handlers: the inner one takes \<open>JSONDecodeError\<close> and wraps the text, the
  outer \<open>except Exception\<close> of the whole call takes anything else that \<open>json.loads\<close>
  raises and returns the execution-failed dict.
\<close>

definition parse_result :: "env \<Rightarrow> content list \<Rightarrow> json" where
  "parse_result e cs =
     (if cs \<noteq> [] then
        (let content_text = join_content cs [] in
         case json_loads e content_text of
           Inr v \<Rightarrow> v
         | Inl JSONDecodeError \<Rightarrow>
             JObject [(''success'', JBool True), (''result'', JString content_text)]
         | Inl (OtherException type_name err) \<Rightarrow> tool_execution_failed err)
      else JObject [(''success'', JBool True), (''result'', JString ''No content'')])"

text \<open>
  The loop over \<open>server_sessions\<close>. Both the \<open>try\<close> and the \<open>except\<close> return, so only the
  first healthy session that lists the tool is ever called. \<open>request_id\<close> is only logged.
\<close>

fun execute_tool_loop :: "env \<Rightarrow> nat \<Rightarrow> sessions \<Rightarrow> string \<Rightarrow> json \<Rightarrow> json" where
  "execute_tool_loop e k [] tool_name tool_input = tool_not_found tool_name"
| "execute_tool_loop e k ((server_name, info) # rest) tool_name tool_input =
     (if \<not> healthy info then execute_tool_loop e k rest tool_name tool_input
      else if tool_name \<in> set (map Tool.name (tools info)) then
        (case call_tool e k (session info) tool_name tool_input of
           Inr cs \<Rightarrow> parse_result e cs
         | Inl err \<Rightarrow> tool_execution_failed err)
      else execute_tool_loop e k rest tool_name tool_input)"

definition execute_tool ::
  "env \<Rightarrow> nat \<Rightarrow> MCPSessionManager \<Rightarrow> string \<Rightarrow> json \<Rightarrow> string \<Rightarrow> json" where
  "execute_tool e k mgr tool_name tool_input request_id =
     execute_tool_loop e k (server_sessions mgr) tool_name tool_input"

text \<open>
  The session the router picks: the first one, in registration order, that is healthy
  and lists the tool.
\<close>

fun first_advertising :: "sessions \<Rightarrow> string \<Rightarrow> session_info option" where
  "first_advertising [] tool_name = None"
| "first_advertising ((server_name, info) # rest) tool_name =
     (if healthy info \<and> tool_name \<in> set (map Tool.name (tools info)) then Some info
      else first_advertising rest tool_name)"

section \<open>Text of numbers\<close>

text \<open>\<open>str(n)\<close> of a Python int.\<close>

function str_nat :: "nat \<Rightarrow> string" where
  "str_nat n =
     (if n < 10 then [''0123456789'' ! n]
      else str_nat (n div 10) @ [''0123456789'' ! (n mod 10)])"
  by pat_completeness auto
termination
  by (relation "measure id") auto

definition str_int :: "int \<Rightarrow> string" where
  "str_int i = (if i < 0 then CHR ''-'' # str_nat (nat (- i)) else str_nat (nat i))"

section \<open>Double arithmetic\<close>

text \<open>
  Python floats are IEEE 754 doubles. A finite double is held as the rational it denotes,
  and an operation is the exact operation followed by \<open>to_double\<close>, rounding to the
  nearest double with ties to the even significand (53 bits, subnormals below
  \<open>2^-1022\<close>). Overflow to infinity, NaN and the sign of zero are not represented: the
  values here are counts, percentages and clock readings.
\<close>

definition pow2 :: "int \<Rightarrow> rat" where
  "pow2 k = (if 0 \<le> k then 2 ^ nat k else 1 / 2 ^ nat (- k))"

definition round_half_even :: "rat \<Rightarrow> int" where
  "round_half_even x =
     (let f = \<lfloor>x\<rfloor>; d = x - of_int f in
      if d < 1 / 2 then f
      else if 1 / 2 < d then f + 1
      else if even f then f else f + 1)"

text \<open>For \<open>0 < x\<close>: the \<open>e\<close> with \<open>2^e \<le> x < 2^(e+1)\<close>.\<close>

definition floor_log2 :: "rat \<Rightarrow> int" where
  "floor_log2 x =
     (let (p, q) = quotient_of x; d = bitlen p - bitlen q in
      if pow2 d \<le> x then d else d - 1)"

definition to_double :: "rat \<Rightarrow> pyfloat" where
  "to_double x =
     (if x = 0 then 0
      else
        (let a = \<bar>x\<bar>;
             q = max (floor_log2 a - 52) (- 1074);
             m = round_half_even (a / pow2 q)
         in (if x < 0 then - 1 else 1) * of_int m * pow2 q))"

text \<open>\<open>int(x)\<close> of a float: truncation towards zero.\<close>

definition trunc :: "pyfloat \<Rightarrow> int" where
  "trunc x = (if x < 0 then - \<lfloor>- x\<rfloor> else \<lfloor>x\<rfloor>)"

text \<open>
  \<open>f"{x:.Nf}"\<close>: the decimal with \<open>N\<close> digits after the point that is nearest to the
  exact value of the double, ties to even.
\<close>

definition format_fixed :: "nat \<Rightarrow> pyfloat \<Rightarrow> string" where
  "format_fixed nd x =
     (let n = nat (round_half_even (\<bar>x\<bar> * 10 ^ nd));
          ip = str_nat (n div 10 ^ nd);
          fp = str_nat (n mod 10 ^ nd)
      in (if x < 0 then ''-'' else [])
         @ ip
         @ (if nd = 0 then [] else CHR ''.'' # replicate (nd - length fp) CHR ''0'' @ fp))"

section \<open>Metrics (metrics.py)\<close>

record RequestMetrics =
  request_id :: string
  start_time :: pyfloat
  end_time :: "pyfloat option"
  success :: bool
  error_type :: "string option"
  tools_called :: "string list"
  token_usage :: "(string \<times> int) list option"

text \<open>The dataclass's constructor with its defaults.\<close>

definition RequestMetrics_new :: "string \<Rightarrow> pyfloat \<Rightarrow> RequestMetrics" where
  "RequestMetrics_new rid t =
     \<lparr>request_id = rid, start_time = t, end_time = None, success = False,
      error_type = None, tools_called = [], token_usage = None\<rparr>"

definition add_metric :: "RequestMetrics \<Rightarrow> RequestMetrics list \<Rightarrow> RequestMetrics list" where
  "add_metric metric metrics = metrics @ [metric]"

text \<open>
  The generator \<open>m.end_time - m.start_time for m in self.metrics if m.end_time\<close>: an
  \<open>end_time\<close> that is \<open>None\<close> or \<open>0.0\<close> is falsy and skipped.
\<close>

fun durations :: "RequestMetrics list \<Rightarrow> pyfloat list" where
  "durations [] = []"
| "durations (m # ms) =
     (case end_time m of
        None \<Rightarrow> durations ms
      | Some t \<Rightarrow> if t = 0 then durations ms else to_double (t - start_time m) # durations ms)"

text \<open>
  \<open>sum\<close> starts from the int \<open>0\<close> and adds from left to right, each addition rounded
  (CPython up to 3.11; later versions compensate the rounding error of a float sum).
\<close>

definition float_sum :: "pyfloat list \<Rightarrow> pyfloat" where
  "float_sum xs = foldl (\<lambda>acc x. to_double (acc + x)) 0 xs"

text \<open>\<open>sum(1 for m in self.metrics if m.success)\<close>.\<close>

fun count_successful :: "RequestMetrics list \<Rightarrow> nat" where
  "count_successful [] = 0"
| "count_successful (m # ms) = (if success m then 1 else 0) + count_successful ms"

text \<open>\<open>f"{(successful/total)*100:.1f}%"\<close>: int division is correctly rounded.\<close>

definition success_rate_text :: "nat \<Rightarrow> nat \<Rightarrow> string" where
  "success_rate_text successful total_n =
     (if total_n > 0 then
        format_fixed 1 (to_double (to_double (of_nat successful / of_nat total_n) * 100)) @ ''%''
      else ''0%'')"

definition get_summary :: "RequestMetrics list \<Rightarrow> json" where
  "get_summary metrics =
     (if metrics = [] then JObject [(''message'', JString ''No metrics available'')]
      else
        (let total_n = length metrics;
             successful = count_successful metrics;
             failed = int total_n - int successful;
             avg_duration =
               (if total_n > 0
                then to_double (float_sum (durations metrics) / to_double (of_nat total_n))
                else 0)
         in JObject
              [(''total_requests'', JInt (int total_n)),
               (''successful'', JInt (int successful)),
               (''failed'', JInt failed),
               (''success_rate'', JString (success_rate_text successful total_n)),
               (''avg_duration_seconds'', JString (format_fixed 2 avg_duration))]))"

section \<open>A JSON codec\<close>

text \<open>
  \<open>json.loads\<close> and \<open>json.dumps\<close> belong to Python's library and enter the program
  through \<^typ>\<open>env\<close>. This section gives one concrete pair for the documents that occur
  here, so that the examples can be evaluated: objects, arrays, strings of printable
  ASCII with the short escapes, integers, \<open>true\<close>, \<open>false\<close> and \<open>null\<close>, written as
  \<open>json.dumps(v, indent=2)\<close> writes them. A float, a \<open>\\u\<close> escape and a character
  outside ASCII are not covered: the decoder answers \<open>JSONDecodeError\<close> and the encoder
  \<open>None\<close> there. Of the other exceptions of \<open>json.loads\<close> the decoder has the limit of
  digits of an integer; the depth at which Python gives up depends on the interpreter's
  stack and is not represented.
\<close>

definition is_ws :: "char \<Rightarrow> bool" where
  "is_ws c \<longleftrightarrow> c = CHR '' '' \<or> c = CHR 0x09 \<or> c = CHR 0x0A \<or> c = CHR 0x0D"

definition skip_ws :: "string \<Rightarrow> string" where
  "skip_ws = dropWhile is_ws"

definition unescape :: "char \<Rightarrow> char option" where
  "unescape c =
     (if c = CHR 0x22 then Some (CHR 0x22)
      else if c = CHR 0x5C then Some (CHR 0x5C)
      else if c = CHR ''/'' then Some (CHR ''/'')
      else if c = CHR ''b'' then Some (CHR 0x08)
      else if c = CHR ''f'' then Some (CHR 0x0C)
      else if c = CHR ''n'' then Some (CHR 0x0A)
      else if c = CHR ''r'' then Some (CHR 0x0D)
      else if c = CHR ''t'' then Some (CHR 0x09)
      else None)"

text \<open>The text after an opening quote, up to the closing one.\<close>

fun scan_string :: "string \<Rightarrow> string \<Rightarrow> (string \<times> string) option" where
  "scan_string [] acc = None"
| "scan_string [c] acc = (if c = CHR 0x22 then Some (acc, []) else None)"
| "scan_string (c # d # cs) acc =
     (if c = CHR 0x22 then Some (acc, d # cs)
      else if c = CHR 0x5C then
        (case unescape d of None \<Rightarrow> None | Some x \<Rightarrow> scan_string cs (acc @ [x]))
      else if (of_char c :: nat) < 32 \<or> 127 \<le> (of_char c :: nat) then None
      else scan_string (d # cs) (acc @ [c]))"

definition is_digit :: "char \<Rightarrow> bool" where
  "is_digit c \<longleftrightarrow> 48 \<le> (of_char c :: nat) \<and> (of_char c :: nat) \<le> 57"

definition digits_value :: "string \<Rightarrow> int" where
  "digits_value ds = foldl (\<lambda>acc c. 10 * acc + (of_char c - 48)) 0 ds"

text \<open>
  The tail of a number that makes it a float: a fraction \<open>.d\<close> or an exponent \<open>e\<close>,
  \<open>E\<close> with an optional sign and a digit.
\<close>

definition float_tail :: "string \<Rightarrow> bool" where
  "float_tail r =
     (case r of
        c # d # ds \<Rightarrow>
          (c = CHR ''.'' \<and> is_digit d)
          \<or> ((c = CHR ''e'' \<or> c = CHR ''E'')
              \<and> (is_digit d
                  \<or> ((d = CHR ''+'' \<or> d = CHR ''-'')
                      \<and> (case ds of [] \<Rightarrow> False | x # xs \<Rightarrow> is_digit x))))
      | _ \<Rightarrow> False)"

text \<open>
  \<open>int(s)\<close> refuses a literal of more than 4300 digits with a \<open>ValueError\<close> (CPython 3.11
  and later, with the default limit).
\<close>

definition digit_limit_error :: "nat \<Rightarrow> loads_error" where
  "digit_limit_error n =
     OtherException ''ValueError''
       (''Exceeds the limit (4300 digits) for integer string conversion: value has ''
        @ str_nat n @ '' digits; use sys.set_int_max_str_digits() to increase the limit'')"

text \<open>
  An integer: an optional minus, then \<open>0\<close> or a digit string without a leading zero. A
  float is not covered (\<open>JSONDecodeError\<close> here).
\<close>

definition scan_int :: "string \<Rightarrow> loads_error + json \<times> string" where
  "scan_int s =
     (let negative = (case s of [] \<Rightarrow> False | c # cs \<Rightarrow> c = CHR ''-'');
          body = (if negative then tl s else s)
      in case body of
           [] \<Rightarrow> Inl JSONDecodeError
         | c # cs \<Rightarrow>
             if \<not> is_digit c then Inl JSONDecodeError
             else
               (let ds = (if c = CHR ''0'' then [c] else takeWhile is_digit body);
                    r = drop (length ds) body
                in if float_tail r then Inl JSONDecodeError
                   else if 4300 < length ds then Inl (digit_limit_error (length ds))
                   else Inr (JInt ((if negative then - 1 else 1) * digits_value ds), r)))"

text \<open>
  The first argument bounds the nesting and the number of items read (\<open>decode\<close> passes
  the length of the text, and the answer is \<open>JSONDecodeError\<close> when the bound runs out).
  A key given twice keeps its first place and its last value, as in a dict. The first
  thing that raises ends the reading.
\<close>

function (sequential) parse_value :: "nat \<Rightarrow> string \<Rightarrow> loads_error + json \<times> string"
  and parse_elements :: "nat \<Rightarrow> string \<Rightarrow> json list \<Rightarrow> loads_error + json \<times> string"
  and parse_members ::
    "nat \<Rightarrow> string \<Rightarrow> (string \<times> json) list \<Rightarrow> loads_error + json \<times> string" where
  "parse_value 0 s = Inl JSONDecodeError"
| "parse_value (Suc n) [] = Inl JSONDecodeError"
| "parse_value (Suc n) (c # cs) =
     (if c = CHR 0x22 then
        (case scan_string cs [] of
           None \<Rightarrow> Inl JSONDecodeError
         | Some (str, r) \<Rightarrow> Inr (JString str, r))
      else if c = CHR ''{'' then
        (case skip_ws cs of
           [] \<Rightarrow> Inl JSONDecodeError
         | d # r \<Rightarrow> if d = CHR ''}'' then Inr (JObject [], r) else parse_members n (d # r) [])
      else if c = CHR ''['' then
        (case skip_ws cs of
           [] \<Rightarrow> Inl JSONDecodeError
         | d # r \<Rightarrow> if d = CHR '']'' then Inr (JArray [], r) else parse_elements n (d # r) [])
      else if take 4 (c # cs) = ''null'' then Inr (JNull, drop 4 (c # cs))
      else if take 4 (c # cs) = ''true'' then Inr (JBool True, drop 4 (c # cs))
      else if take 5 (c # cs) = ''false'' then Inr (JBool False, drop 5 (c # cs))
      else scan_int (c # cs))"
| "parse_elements 0 s acc = Inl JSONDecodeError"
| "parse_elements (Suc n) s acc =
     (case parse_value n s of
        Inl err \<Rightarrow> Inl err
      | Inr (v, r) \<Rightarrow>
          (case skip_ws r of
             [] \<Rightarrow> Inl JSONDecodeError
           | d # r' \<Rightarrow>
               if d = CHR '','' then parse_elements n (skip_ws r') (acc @ [v])
               else if d = CHR '']'' then Inr (JArray (acc @ [v]), r')
               else Inl JSONDecodeError))"
| "parse_members 0 s acc = Inl JSONDecodeError"
| "parse_members (Suc n) s acc =
     (case s of
        [] \<Rightarrow> Inl JSONDecodeError
      | q # s' \<Rightarrow>
          if q \<noteq> CHR 0x22 then Inl JSONDecodeError
          else
            (case scan_string s' [] of
               None \<Rightarrow> Inl JSONDecodeError
             | Some (key, r) \<Rightarrow>
                 (case skip_ws r of
                    [] \<Rightarrow> Inl JSONDecodeError
                  | colon # r1 \<Rightarrow>
                      if colon \<noteq> CHR '':'' then Inl JSONDecodeError
                      else
                        (case parse_value n (skip_ws r1) of
                           Inl err \<Rightarrow> Inl err
                         | Inr (v, r2) \<Rightarrow>
                             (case skip_ws r2 of
                                [] \<Rightarrow> Inl JSONDecodeError
                              | d # r3 \<Rightarrow>
                                  if d = CHR '','' then
                                    parse_members n (skip_ws r3) (AList.update key v acc)
                                  else if d = CHR ''}'' then
                                    Inr (JObject (AList.update key v acc), r3)
                                  else Inl JSONDecodeError)))))"
  by pat_completeness auto
termination
  by (relation "measure (\<lambda>x. case x of Inl (n, s) \<Rightarrow> n
                               | Inr (Inl (n, s, acc)) \<Rightarrow> n
                               | Inr (Inr (n, s, acc)) \<Rightarrow> n)") auto

definition decode :: "string \<Rightarrow> loads_error + json" where
  "decode s =
     (case parse_value (Suc (length s)) (skip_ws s) of
        Inl err \<Rightarrow> Inl err
      | Inr (v, r) \<Rightarrow> if skip_ws r = [] then Inr v else Inl JSONDecodeError)"

definition escape_char :: "char \<Rightarrow> string" where
  "escape_char c =
     (if c = CHR 0x22 then [CHR 0x5C, CHR 0x22]
      else if c = CHR 0x5C then [CHR 0x5C, CHR 0x5C]
      else if c = CHR 0x0A then [CHR 0x5C, CHR ''n'']
      else if c = CHR 0x0D then [CHR 0x5C, CHR ''r'']
      else if c = CHR 0x09 then [CHR 0x5C, CHR ''t'']
      else if c = CHR 0x08 then [CHR 0x5C, CHR ''b'']
      else if c = CHR 0x0C then [CHR 0x5C, CHR ''f'']
      else [c])"

definition plain_char :: "char \<Rightarrow> bool" where
  "plain_char c \<longleftrightarrow>
     (32 \<le> (of_char c :: nat) \<and> (of_char c :: nat) < 127)
     \<or> c = CHR 0x0A \<or> c = CHR 0x0D \<or> c = CHR 0x09 \<or> c = CHR 0x08 \<or> c = CHR 0x0C"

definition encode_string :: "string \<Rightarrow> string option" where
  "encode_string s =
     (if list_all plain_char s then Some ([CHR 0x22] @ concat (map escape_char s) @ [CHR 0x22])
      else None)"

definition newline_indent :: "nat \<Rightarrow> string" where
  "newline_indent level = CHR 0x0A # replicate (2 * level) CHR '' ''"

fun join :: "string \<Rightarrow> string list \<Rightarrow> string" where
  "join sep [] = []"
| "join sep [x] = x"
| "join sep (x # y # ys) = x @ sep @ join sep (y # ys)"

fun all_some :: "'a option list \<Rightarrow> 'a list option" where
  "all_some [] = Some []"
| "all_some (None # xs) = None"
| "all_some (Some x # xs) = map_option ((#) x) (all_some xs)"

fun encode :: "nat \<Rightarrow> json \<Rightarrow> string option" where
  "encode level JNull = Some ''null''"
| "encode level (JBool b) = Some (if b then ''true'' else ''false'')"
| "encode level (JInt i) = Some (str_int i)"
| "encode level (JFloat x) = None"
| "encode level (JString s) = encode_string s"
| "encode level (JArray xs) =
     (if xs = [] then Some ''[]''
      else map_option
             (\<lambda>items. ''['' @ newline_indent (Suc level)
                       @ join ('','' @ newline_indent (Suc level)) items
                       @ newline_indent level @ '']'')
             (all_some (map (encode (Suc level)) xs)))"
| "encode level (JObject kvs) =
     (if kvs = [] then Some ''{}''
      else map_option
             (\<lambda>items. ''{'' @ newline_indent (Suc level)
                       @ join ('','' @ newline_indent (Suc level)) items
                       @ newline_indent level @ ''}'')
             (all_some (map (\<lambda>(k, v).
                 case (encode_string k, encode (Suc level) v) of
                   (Some ks, Some vs) \<Rightarrow> Some (ks @ '': '' @ vs)
                 | _ \<Rightarrow> None) kvs)))"

definition dumps_indent2 :: "json \<Rightarrow> string" where
  "dumps_indent2 v = (case encode 0 v of Some s \<Rightarrow> s | None \<Rightarrow> [])"

section \<open>Configuration (session.py)\<close>

text \<open>
  What loading may raise: whatever \<open>json.load\<close> raises, a \<open>TypeError\<close> or an
  \<open>AttributeError\<close>. \<open>Untyped\<close> is not an exception: the dataclass stores whatever
  value a field is given, and a document whose field has another type than the annotated
  one has no counterpart in \<^typ>\<open>MCPServerConfig\<close>; the model answers \<open>Untyped\<close> there.
\<close>

datatype error = LoadsError loads_error | TypeError | AttributeError | Untyped

definition known_fields :: "string list" where
  "known_fields =
     [''name'', ''script_path'', ''enabled'', ''timeout'', ''max_retries'',
      ''health_check_interval'', ''metadata'']"

definition field_or :: "(string \<times> json) list \<Rightarrow> string \<Rightarrow> json \<Rightarrow> json" where
  "field_or kvs k d = (case map_of kvs k of Some v \<Rightarrow> v | None \<Rightarrow> d)"

fun as_str :: "json \<Rightarrow> string option" where
  "as_str (JString s) = Some s"
| "as_str v = None"

fun as_bool :: "json \<Rightarrow> bool option" where
  "as_bool (JBool b) = Some b"
| "as_bool v = None"

fun as_int :: "json \<Rightarrow> int option" where
  "as_int (JInt i) = Some i"
| "as_int v = None"

fun as_dict :: "json \<Rightarrow> (string \<times> json) list option" where
  "as_dict (JObject kvs) = Some kvs"
| "as_dict v = None"

text \<open>
  \<open>MCPServerConfig(**server)\<close>: \<open>server\<close> must be a mapping, a key that is no field is an
  unexpected keyword, \<open>name\<close> and \<open>script_path\<close> are required, the rest have defaults.
\<close>

definition MCPServerConfig_of :: "json \<Rightarrow> error + MCPServerConfig" where
  "MCPServerConfig_of server =
     (case server of
        JObject kvs \<Rightarrow>
          if \<not> list_all (\<lambda>(k, v). k \<in> set known_fields) kvs then Inl TypeError
          else if map_of kvs ''name'' = None \<or> map_of kvs ''script_path'' = None then Inl TypeError
          else
            (case (as_str (field_or kvs ''name'' JNull),
                   as_str (field_or kvs ''script_path'' JNull),
                   as_bool (field_or kvs ''enabled'' (JBool True)),
                   as_int (field_or kvs ''timeout'' (JInt 30)),
                   as_int (field_or kvs ''max_retries'' (JInt 3)),
                   as_int (field_or kvs ''health_check_interval'' (JInt 60)),
                   as_dict (field_or kvs ''metadata'' (JObject []))) of
               (Some n, Some p, Some en, Some t, Some r, Some h, Some md) \<Rightarrow>
                 Inr \<lparr>MCPServerConfig.name = n, script_path = p, enabled = en, timeout = t,
                      max_retries = r, health_check_interval = h, metadata = md\<rparr>
             | _ \<Rightarrow> Inl Untyped)
      | _ \<Rightarrow> Inl TypeError)"

text \<open>A list comprehension stops at the first element that raises.\<close>

fun collect :: "(error + 'a) list \<Rightarrow> error + 'a list" where
  "collect [] = Inr []"
| "collect (Inl err # xs) = Inl err"
| "collect (Inr x # xs) = (case collect xs of Inl err \<Rightarrow> Inl err | Inr ys \<Rightarrow> Inr (x # ys))"

text \<open>
  \<open>[MCPServerConfig(**server) for server in v]\<close>. Iterating a dict or a str yields
  strings, which are no mappings; an empty one yields nothing; other values do not
  iterate.
\<close>

definition load_servers :: "json \<Rightarrow> error + MCPServerConfig list" where
  "load_servers v =
     (case v of
        JArray xs \<Rightarrow> collect (map MCPServerConfig_of xs)
      | JObject kvs \<Rightarrow> if kvs = [] then Inr [] else Inl TypeError
      | JString s \<Rightarrow> if s = [] then Inr [] else Inl TypeError
      | _ \<Rightarrow> Inl TypeError)"

definition default_servers :: json where
  "default_servers =
     JArray
       [JObject
          [(''name'', JString ''sqlite-database''),
           (''script_path'', JString ''mcp_sandbox.server''),
           (''enabled'', JBool True),
           (''timeout'', JInt 30),
           (''max_retries'', JInt 3),
           (''health_check_interval'', JInt 60),
           (''metadata'',
              JObject [(''description'', JString ''SQLite database MCP server''),
                       (''version'', JString ''1.0.0'')])]]"

definition default_config :: json where
  "default_config = JObject [(''servers'', default_servers), (''log_level'', JString ''INFO'')]"

text \<open>
  The files: a map from paths to their text. Creating the parent directory and opening
  the file are taken to succeed.
\<close>

type_synonym files = "string \<rightharpoonup> string"

definition create_default_configuration ::
  "env \<Rightarrow> files \<Rightarrow> string \<Rightarrow> MCPSessionManager \<Rightarrow> error + files \<times> MCPSessionManager" where
  "create_default_configuration e fs config_path mgr =
     (let fs' = fs(config_path \<mapsto> json_dumps e default_config) in
      case load_servers default_servers of
        Inl err \<Rightarrow> Inl err
      | Inr cs \<Rightarrow> Inr (fs', mgr\<lparr>server_configs := cs\<rparr>))"

definition load_configuration ::
  "env \<Rightarrow> files \<Rightarrow> string \<Rightarrow> MCPSessionManager \<Rightarrow> error + files \<times> MCPSessionManager" where
  "load_configuration e fs config_path mgr =
     (case fs config_path of
        Some text \<Rightarrow>
          (case json_loads e text of
             Inl err \<Rightarrow> Inl (LoadsError err)
           | Inr config_data \<Rightarrow>
               (case config_data of
                  JObject kvs \<Rightarrow>
                    (case load_servers (field_or kvs ''servers'' (JArray [])) of
                       Inl err \<Rightarrow> Inl err
                     | Inr cs \<Rightarrow> Inr (fs, mgr\<lparr>server_configs := cs\<rparr>))
                | _ \<Rightarrow> Inl AttributeError))
      | None \<Rightarrow> create_default_configuration e fs config_path mgr)"

section \<open>Chat client (app.py)\<close>

text \<open>
  The client object (\<open>conversation_history\<close>, \<open>session_manager\<close>, the collector's
  \<open>metrics\<close>) together with the trace of what it did to the outside: the requests sent
  to the model, the number of tool invocations routed, the delays slept and the number
  of clock readings.
\<close>

record MCPClient =
  conversation_history :: "message list"
  session_manager :: MCPSessionManager
  metrics_collector :: "RequestMetrics list"
  model_requests :: "model_request list"
  tool_invocations :: nat
  sleeps :: "int list"
  clock_reads :: nat

text \<open>The cross mark U+274C that starts every failure text, in UTF-8.\<close>

definition cross_mark :: string where
  "cross_mark = [CHR 0xE2, CHR 0x9D, CHR 0x8C]"

definition no_tools_text :: string where
  "no_tools_text = cross_mark @ '' No MCP tools currently available. Please check server status.''"

definition system_message :: string where
  "system_message =
     ''You are an AI assistant with access to MCP (Model Context Protocol) tools.''
     @ [CHR 0x0A, CHR 0x0A]
     @ ''You have access to database operations and other tools provided by MCP servers.''
     @ [CHR 0x0A]
     @ ''Always explain your actions clearly and handle errors gracefully.''
     @ [CHR 0x0A, CHR 0x0A]
     @ ''This environment has proper monitoring and error handling.''"

definition make_request :: "message list \<Rightarrow> json list option \<Rightarrow> model_request" where
  "make_request history tools_arg =
     \<lparr>model = ''claude-sonnet-4-5'', max_tokens = 4000, system = system_message,
      messages = history, request_tools = tools_arg\<rparr>"

text \<open>Sending a request: it is appended to the trace and answered by the environment.\<close>

definition call_model :: "env \<Rightarrow> model_request \<Rightarrow> MCPClient \<Rightarrow> (exn + response) \<times> MCPClient" where
  "call_model e req st =
     (messages_create e (length (model_requests st)) req,
      st\<lparr>model_requests := model_requests st @ [req]\<rparr>)"

text \<open>\<open>content[0].text\<close>: an empty list and a block without \<open>text\<close> raise.\<close>

fun first_text :: "content_block list \<Rightarrow> exn + string" where
  "first_text [] = Inl (OtherError ''IndexError'' ''list index out of range'')"
| "first_text (TextBlock t # bs) = Inr t"
| "first_text (ToolUseBlock i n inp # bs) =
     Inl (OtherError ''AttributeError''
            ([CHR 0x27] @ ''ToolUseBlock'' @ [CHR 0x27] @ '' object has no attribute ''
             @ [CHR 0x27] @ ''text'' @ [CHR 0x27]))"

text \<open>The loop over the blocks of a tool-use response, appending to \<open>tool_results\<close>.\<close>

fun run_tools ::
  "env \<Rightarrow> string \<Rightarrow> content_block list \<Rightarrow> (string \<times> string) list \<Rightarrow> MCPClient
   \<Rightarrow> (string \<times> string) list \<times> MCPClient" where
  "run_tools e rid [] tool_results st = (tool_results, st)"
| "run_tools e rid (TextBlock t # bs) tool_results st = run_tools e rid bs tool_results st"
| "run_tools e rid (ToolUseBlock tool_id tool_name tool_input # bs) tool_results st =
     (let tool_result =
            execute_tool e (tool_invocations st) (session_manager st) tool_name tool_input rid
      in run_tools e rid bs
           (tool_results @ [(tool_id, json_dumps e tool_result)])
           (st\<lparr>tool_invocations := Suc (tool_invocations st)\<rparr>))"

definition execute_chat :: "env \<Rightarrow> string \<Rightarrow> string \<Rightarrow> MCPClient \<Rightarrow> (exn + string) \<times> MCPClient" where
  "execute_chat e user_message rid st0 =
     (let st1 = st0\<lparr>conversation_history := conversation_history st0 @ [UserText user_message]\<rparr>;
          all_tools = get_all_tools (session_manager st1)
      in if all_tools = [] then (Inr no_tools_text, st1)
         else
           (case call_model e (make_request (conversation_history st1) (Some all_tools)) st1 of
              (Inl ex, st2) \<Rightarrow> (Inl ex, st2)
            | (Inr resp, st2) \<Rightarrow>
                if stop_reason resp = ''tool_use'' then
                  (let (tool_results, st3) = run_tools e rid (blocks resp) [] st2;
                       st4 = st3\<lparr>conversation_history :=
                                  conversation_history st3
                                  @ [AssistantBlocks (blocks resp), UserToolResults tool_results]\<rparr>
                   in case call_model e (make_request (conversation_history st4) None) st4 of
                        (Inl ex, st5) \<Rightarrow> (Inl ex, st5)
                      | (Inr final_response, st5) \<Rightarrow>
                          (first_text (blocks final_response),
                           st5\<lparr>conversation_history :=
                                 conversation_history st5 @ [AssistantBlocks (blocks final_response)]\<rparr>))
                else
                  (first_text (blocks resp),
                   st2\<lparr>conversation_history :=
                         conversation_history st2 @ [AssistantBlocks (blocks resp)]\<rparr>)))"

text \<open>Reading the clock, and closing the request's metric and appending it to the log.\<close>

definition read_clock :: "env \<Rightarrow> MCPClient \<Rightarrow> pyfloat \<times> MCPClient" where
  "read_clock e st = (time_time e (clock_reads st), st\<lparr>clock_reads := Suc (clock_reads st)\<rparr>)"

definition finish :: "env \<Rightarrow> RequestMetrics \<Rightarrow> MCPClient \<Rightarrow> MCPClient" where
  "finish e metric st =
     (let (now, st') = read_clock e st
      in st'\<lparr>metrics_collector := add_metric (metric\<lparr>end_time := Some now\<rparr>) (metrics_collector st')\<rparr>)"

text \<open>
  The loop \<open>for attempt in range(max_retries)\<close>. Every branch of the body returns or
  sleeps and goes on; when the range is exhausted without a return the method ends
  without a \<open>return\<close>, which is \<open>None\<close>.
\<close>

function retry_loop ::
  "env \<Rightarrow> string \<Rightarrow> int \<Rightarrow> int \<Rightarrow> RequestMetrics \<Rightarrow> MCPClient \<Rightarrow> string option \<times> MCPClient" where
  "retry_loop e user_message n attempt metric st =
     (if attempt < n then
        (case execute_chat e user_message (request_id metric) st of
           (Inr resp, st1) \<Rightarrow> (Some resp, finish e (metric\<lparr>success := True\<rparr>) st1)
         | (Inl APITimeoutError, st1) \<Rightarrow>
             if attempt = n - 1 then
               (Some (cross_mark @ '' Request timed out after '' @ str_int n @ '' attempts''),
                finish e (metric\<lparr>error_type := Some ''timeout''\<rparr>) st1)
             else retry_loop e user_message n (attempt + 1) metric
                    (st1\<lparr>sleeps := sleeps st1 @ [2 ^ nat attempt]\<rparr>)
         | (Inl RateLimitError, st1) \<Rightarrow>
             if attempt = n - 1 then
               (Some (cross_mark @ '' Rate limit exceeded. Please try again later.''),
                finish e (metric\<lparr>error_type := Some ''rate_limit''\<rparr>) st1)
             else retry_loop e user_message n (attempt + 1) metric
                    (st1\<lparr>sleeps := sleeps st1 @ [5 * (attempt + 1)]\<rparr>)
         | (Inl (OtherError type_name text), st1) \<Rightarrow>
             (Some (cross_mark @ '' Error: '' @ text),
              finish e (metric\<lparr>error_type := Some type_name\<rparr>) st1))
      else (None, st))"
  by pat_completeness auto
termination
  by (relation "measure (\<lambda>(e, user_message, n, attempt, metric, st). nat (n - attempt))") auto

definition chat_with_claude ::
  "env \<Rightarrow> string \<Rightarrow> int \<Rightarrow> MCPClient \<Rightarrow> string option \<times> MCPClient" where
  "chat_with_claude e user_message n st =
     (let (t0, st1) = read_clock e st;
          rid = ''req_'' @ str_int (trunc (to_double (t0 * 1000)));
          (t1, st2) = read_clock e st1
      in retry_loop e user_message n 0 (RequestMetrics_new rid t1) st2)"

text \<open>\<open>MCPClient.__init__\<close>: nothing said, nothing launched, nothing recorded.\<close>

definition MCPClient_init :: MCPClient where
  "MCPClient_init =
     \<lparr>conversation_history = [], session_manager = MCPSessionManager_init,
      metrics_collector = [], model_requests = [], tool_invocations = 0, sleeps = [],
      clock_reads = 0\<rparr>"

section \<open>Example values\<close>

text \<open>The payload of \<open>test_execute_tool_success\<close> (tests/test_client.py).\<close>

definition test_payload :: string where
  "test_payload = ''{\"success\": true, \"result\": \"test\"}''"

text \<open>The three metrics of \<open>test_metrics_collector_summary\<close>.\<close>

definition test_metrics :: "RequestMetrics list" where
  "test_metrics =
     [(RequestMetrics_new ''req-1'' 100)\<lparr>end_time := Some 105, success := True\<rparr>,
      (RequestMetrics_new ''req-2'' 200)\<lparr>end_time := Some 203, success := True\<rparr>,
      (RequestMetrics_new ''req-3'' 300)\<lparr>end_time := Some 302, success := False,
                                          error_type := Some ''timeout''\<rparr>]"

definition example_tool :: "string \<Rightarrow> Tool" where
  "example_tool n =
     \<lparr>Tool.name = n, description = Some ''A test tool'',
      inputSchema = JObject [(''type'', JString ''object'')]\<rparr>"

definition example_session :: "nat \<Rightarrow> bool \<Rightarrow> string list \<Rightarrow> session_info" where
  "example_session h ok names =
     \<lparr>session = h, stdio = h, tools = map example_tool names, healthy = ok, last_check = 0\<rparr>"

text \<open>Three sessions; the second one is unhealthy.\<close>

definition example_manager :: MCPSessionManager where
  "example_manager =
     \<lparr>server_configs = [],
      server_sessions =
        [(''a'', example_session 1 True [''query'', ''insert'']),
         (''b'', example_session 2 False [''drop'']),
         (''c'', example_session 3 True [''query'', ''count''])]\<rparr>"

definition example_client :: MCPClient where
  "example_client = MCPClient_init\<lparr>session_manager := example_manager\<rparr>"

definition example_config :: "string \<Rightarrow> string \<Rightarrow> bool \<Rightarrow> MCPServerConfig" where
  "example_config n p en =
     \<lparr>MCPServerConfig.name = n, script_path = p, enabled = en, timeout = 30, max_retries = 3,
      health_check_interval = 60, metadata = []\<rparr>"

text \<open>
  Five descriptors: the second is disabled, the third cannot be started and the fourth
  fails its handshake in the environment below.
\<close>

definition example_configs :: "MCPServerConfig list" where
  "example_configs =
     [example_config ''sqlite-database'' ''mcp_sandbox.server'' True,
      example_config ''off'' ''off.py'' False,
      example_config ''broken'' ''broken.py'' True,
      example_config ''mute'' ''mute.py'' True,
      example_config ''files'' ''files.py'' True]"

text \<open>
  An environment: \<open>broken.py\<close> does not start, the handshake of step 3 fails, every
  backend lists one tool, \<open>query\<close> answers the test's payload, \<open>insert\<close> raises and any
  other tool answers plain text; the model never answers in time; the clock ticks once
  per reading; the JSON library is the codec above.
\<close>

definition example_env :: env where
  "example_env =
     \<lparr>stdio_enter = (\<lambda>i p. if args p = [''broken.py''] then Inl ''No such file'' else Inr i),
      session_initialize = (\<lambda>i h. if i = 3 then Inl ''handshake failed'' else Inr (100 + h)),
      list_tools = (\<lambda>i h. Inr [example_tool ''query'']),
      call_tool = (\<lambda>k h n a.
         if n = ''query'' then Inr [TextContent test_payload]
         else if n = ''insert'' then Inl ''database is locked''
         else Inr [TextContent ''3 rows'', OtherContent '' (image)'']),
      messages_create = (\<lambda>k r. Inl APITimeoutError),
      time_time = (\<lambda>i. 1000 + of_nat i),
      json_loads = decode,
      json_dumps = dumps_indent2\<rparr>"

text \<open>
  A backend that answers every call with an integer literal of 4301 digits, one more
  than \<open>json.loads\<close> converts.
\<close>

definition long_integer_payload :: string where
  "long_integer_payload = replicate 4301 CHR ''1''"

definition long_integer_env :: env where
  "long_integer_env =
     example_env\<lparr>call_tool := (\<lambda>k h n a. Inr [TextContent long_integer_payload])\<rparr>"

section \<open>The tool catalog\<close>

lemma append_tools_eq: "append_tools ts acc = acc @ map tool_def ts"
  by (induction ts arbitrary: acc) simp_all

lemma get_all_tools_loop_eq: "get_all_tools_loop ss acc = acc @ allTools_spec ss"
  by (induction ss arbitrary: acc) (auto simp: allTools_spec_def append_tools_eq)

text \<open>
  Claim C2. For every session registry, \<open>get_all_tools\<close> returns exactly the tools of the
  sessions whose \<open>healthy\<close> flag is true: the catalog is the concatenation, in
  registration order, of the tool records of the healthy sessions. So every tool of a
  healthy session is in it, and every entry of it is a tool of some healthy session.
\<close>

theorem get_all_tools_healthy_only:
  "get_all_tools mgr = allTools_spec (server_sessions mgr)
   \<and> (\<forall>(server_name, info) \<in> set (server_sessions mgr).
         healthy info \<longrightarrow> (\<forall>t \<in> set (tools info). tool_def t \<in> set (get_all_tools mgr)))
   \<and> (\<forall>d \<in> set (get_all_tools mgr).
         \<exists>(server_name, info) \<in> set (server_sessions mgr).
           healthy info \<and> d \<in> tool_def ` set (tools info))"
proof -
  have eq: "get_all_tools mgr = allTools_spec (server_sessions mgr)"
    by (simp add: get_all_tools_def get_all_tools_loop_eq)
  show ?thesis
    unfolding eq by (auto simp: allTools_spec_def)
qed

theorem get_all_tools_healthy_only_witness:
  "get_all_tools example_manager =
     [tool_def (example_tool ''query''), tool_def (example_tool ''insert''),
      tool_def (example_tool ''query''), tool_def (example_tool ''count'')]
   \<and> tool_def (example_tool ''drop'') \<notin> set (get_all_tools example_manager)"
  using get_all_tools_healthy_only [of example_manager]
  by (simp add: allTools_spec_def example_manager_def example_session_def example_tool_def
      tool_def_def)

section \<open>Routing a tool call\<close>

lemma execute_tool_loop_not_found:
  "first_advertising ss tool_name = None \<Longrightarrow>
   execute_tool_loop e k ss tool_name tool_input = tool_not_found tool_name"
  by (induction ss) (auto split: if_splits)

lemma execute_tool_loop_found:
  "first_advertising ss tool_name = Some info \<Longrightarrow>
   execute_tool_loop e k ss tool_name tool_input =
     (case call_tool e k (session info) tool_name tool_input of
        Inr cs \<Rightarrow> parse_result e cs
      | Inl err \<Rightarrow> tool_execution_failed err)"
  by (induction ss) (auto split: if_splits)

lemma first_advertising_None_iff:
  "first_advertising ss tool_name = None \<longleftrightarrow>
   (\<forall>(server_name, info) \<in> set ss.
      healthy info \<longrightarrow> tool_name \<notin> set (map Tool.name (tools info)))"
proof (induction ss)
  case Nil
  then show ?case by simp
next
  case (Cons p ss)
  obtain server_name info where p: "p = (server_name, info)" by (cases p)
  show ?case
  proof (cases "healthy info \<and> tool_name \<in> set (map Tool.name (tools info))")
    case True
    then show ?thesis by (auto simp: p)
  next
    case False
    then have "first_advertising (p # ss) tool_name = first_advertising ss tool_name"
      by (auto simp: p)
    with False Cons.IH show ?thesis by (auto simp: p)
  qed
qed

lemma join_content_eq: "join_content cs acc = acc @ concat (map content_str cs)"
  by (induction cs arbitrary: acc) simp_all

text \<open>
  Claim C3. For every tool name that no healthy session advertises, whatever the
  registry holds, \<open>execute_tool\<close> returns the not-found error dict; and when the first
  healthy session advertising the tool raises in the backend call, \<open>execute_tool\<close>
  returns the execution-failed error dict carrying the text of the exception. Both are
  ordinary results: \<open>execute_tool\<close> has no raising outcome.
\<close>

theorem execute_tool_error_results:
  "((\<forall>(server_name, info) \<in> set (server_sessions mgr).
        healthy info \<longrightarrow> tool_name \<notin> set (map Tool.name (tools info)))
    \<longrightarrow> execute_tool e k mgr tool_name tool_input rid =
          JObject [(''error'', JString (''Tool '' @ tool_name @ '' not found on any healthy server''))])
   \<and> (\<forall>info err.
         first_advertising (server_sessions mgr) tool_name = Some info
         \<and> call_tool e k (session info) tool_name tool_input = Inl err
         \<longrightarrow> execute_tool e k mgr tool_name tool_input rid =
               JObject [(''error'', JString (''Tool execution failed: '' @ err))])"
proof (intro conjI impI allI)
  assume "\<forall>(server_name, info) \<in> set (server_sessions mgr).
            healthy info \<longrightarrow> tool_name \<notin> set (map Tool.name (tools info))"
  then have "first_advertising (server_sessions mgr) tool_name = None"
    by (simp only: first_advertising_None_iff)
  then show "execute_tool e k mgr tool_name tool_input rid =
          JObject [(''error'', JString (''Tool '' @ tool_name @ '' not found on any healthy server''))]"
    by (simp add: execute_tool_def execute_tool_loop_not_found tool_not_found_def)
next
  fix info err
  assume "first_advertising (server_sessions mgr) tool_name = Some info
         \<and> call_tool e k (session info) tool_name tool_input = Inl err"
  then show "execute_tool e k mgr tool_name tool_input rid =
               JObject [(''error'', JString (''Tool execution failed: '' @ err))]"
    by (simp add: execute_tool_def execute_tool_loop_found tool_execution_failed_def)
qed

theorem execute_tool_error_results_witness:
  "execute_tool example_env 0 MCPSessionManager_init ''nonexistent_tool'' (JObject []) ''req-123''
     = JObject [(''error'', JString ''Tool nonexistent_tool not found on any healthy server'')]
   \<and> execute_tool example_env 0 example_manager ''drop'' (JObject []) ''req-123''
     = JObject [(''error'', JString ''Tool drop not found on any healthy server'')]
   \<and> execute_tool example_env 0 example_manager ''insert'' (JObject []) ''req-123''
     = JObject [(''error'', JString ''Tool execution failed: database is locked'')]"
proof -
  have h0: "\<forall>(server_name, info) \<in> set (server_sessions MCPSessionManager_init).
              healthy info \<longrightarrow> ''nonexistent_tool'' \<notin> set (map Tool.name (tools info))"
    by (simp add: MCPSessionManager_init_def)
  have h1: "\<forall>(server_name, info) \<in> set (server_sessions example_manager).
              healthy info \<longrightarrow> ''drop'' \<notin> set (map Tool.name (tools info))"
    by (simp add: example_manager_def example_session_def example_tool_def)
  have h2: "first_advertising (server_sessions example_manager) ''insert''
              = Some (example_session 1 True [''query'', ''insert''])"
    by (simp add: example_manager_def example_session_def example_tool_def)
  have h3: "call_tool example_env 0 (session (example_session 1 True [''query'', ''insert'']))
              ''insert'' (JObject []) = Inl ''database is locked''"
    by (simp add: example_env_def)
  from h0 execute_tool_error_results
         [of MCPSessionManager_init "''nonexistent_tool''" example_env 0 "JObject []" "''req-123''"]
  have a: "execute_tool example_env 0 MCPSessionManager_init ''nonexistent_tool'' (JObject []) ''req-123''
     = JObject [(''error'', JString ''Tool nonexistent_tool not found on any healthy server'')]"
    by simp
  from h1 execute_tool_error_results
         [of example_manager "''drop''" example_env 0 "JObject []" "''req-123''"]
  have b: "execute_tool example_env 0 example_manager ''drop'' (JObject []) ''req-123''
     = JObject [(''error'', JString ''Tool drop not found on any healthy server'')]"
    by simp
  from h2 h3 execute_tool_error_results
         [of example_manager "''insert''" example_env 0 "JObject []" "''req-123''"]
  have c: "execute_tool example_env 0 example_manager ''insert'' (JObject []) ''req-123''
     = JObject [(''error'', JString ''Tool execution failed: database is locked'')]"
    by simp
  from a b c show ?thesis by simp
qed

lemma execute_tool_returned:
  assumes "first_advertising (server_sessions mgr) tool_name = Some info"
    and "call_tool e k (session info) tool_name tool_input = Inr cs"
  shows "execute_tool e k mgr tool_name tool_input rid = parse_result e cs"
  using assms by (simp add: execute_tool_def execute_tool_loop_found)

text \<open>
  Claim C4, as the code has it. When \<open>execute_tool\<close> reaches a healthy session
  advertising the tool and the backend returns a non-empty content, the joined text is
  given to \<open>json.loads\<close>: if that succeeds its value is returned as it is; if it raises
  \<open>JSONDecodeError\<close> the text is wrapped as \<open>{"success": True, "result": text}\<close>; if it
  raises any other exception the result is the execution-failed dict with the text of
  that exception. In particular, when the backend returns the test's payload and
  \<open>json.loads\<close> reads it as the object it denotes, the result is that object, whose
  \<open>result\<close> is \<open>"test"\<close>.
\<close>

theorem execute_tool_payload:
  assumes "first_advertising (server_sessions mgr) tool_name = Some info"
    and "call_tool e k (session info) tool_name tool_input = Inr cs"
    and "cs \<noteq> []"
  shows "execute_tool e k mgr tool_name tool_input rid =
           (case json_loads e (concat (map content_str cs)) of
              Inr v \<Rightarrow> v
            | Inl JSONDecodeError \<Rightarrow>
                JObject [(''success'', JBool True),
                         (''result'', JString (concat (map content_str cs)))]
            | Inl (OtherException type_name err) \<Rightarrow>
                JObject [(''error'', JString (''Tool execution failed: '' @ err))])
         \<and> (cs = [TextContent test_payload]
              \<and> json_loads e test_payload
                  = Inr (JObject [(''success'', JBool True), (''result'', JString ''test'')])
            \<longrightarrow> execute_tool e k mgr tool_name tool_input rid
                  = JObject [(''success'', JBool True), (''result'', JString ''test'')]
                \<and> (\<exists>kvs. execute_tool e k mgr tool_name tool_input rid = JObject kvs
                          \<and> map_of kvs ''result'' = Some (JString ''test'')))"
  using assms
  by (auto simp: execute_tool_returned parse_result_def join_content_eq
      tool_execution_failed_def split: sum.splits loads_error.splits)

lemma one_is_digit: "is_digit CHR ''1''"
  by code_simp

lemma one_not_ws: "\<not> is_ws CHR ''1''"
  by code_simp

lemma takeWhile_ones: "takeWhile is_digit (replicate n CHR ''1'') = replicate n CHR ''1''"
  by (induction n) (simp_all add: one_is_digit)

lemma scan_int_ones:
  assumes "4300 < n"
  shows "scan_int (replicate n CHR ''1'') = Inl (digit_limit_error n)"
proof -
  from assms obtain m where n: "n = Suc m" by (cases n) auto
  have tw: "takeWhile is_digit (CHR ''1'' # replicate m CHR ''1'')
              = CHR ''1'' # replicate m CHR ''1''"
    using takeWhile_ones [of "Suc m"] by simp
  show ?thesis
    using assms unfolding n
    by (simp add: scan_int_def Let_def one_is_digit tw float_tail_def del: takeWhile.simps)
qed

text \<open>An integer literal of more than 4300 digits is refused, whatever its length.\<close>

lemma decode_ones:
  assumes "4300 < n"
  shows "decode (replicate n CHR ''1'') = Inl (digit_limit_error n)"
proof -
  from assms obtain m where n: "n = Suc m" by (cases n) auto
  have sk: "skip_ws (CHR ''1'' # replicate m CHR ''1'') = CHR ''1'' # replicate m CHR ''1''"
    by (simp add: skip_ws_def one_not_ws)
  have "parse_value (Suc (length (replicate n CHR ''1''))) (CHR ''1'' # replicate m CHR ''1'')
          = scan_int (CHR ''1'' # replicate m CHR ''1'')"
    by simp
  with scan_int_ones [OF assms] show ?thesis
    unfolding n by (simp add: decode_def sk del: parse_value.simps)
qed

lemma long_integer_refused:
  "decode long_integer_payload = Inl (digit_limit_error 4301)"
  unfolding long_integer_payload_def by (rule decode_ones) simp

lemma digit_limit_text:
  "digit_limit_error 4301 =
     OtherException ''ValueError''
       (''Exceeds the limit (4300 digits) for integer string conversion: ''
        @ ''value has 4301 digits; use sys.set_int_max_str_digits() to increase the limit'')"
  by code_simp

theorem execute_tool_payload_witness:
  "execute_tool example_env 0 example_manager ''query'' (JObject [(''arg'', JString ''value'')])
     ''req-123''
     = JObject [(''success'', JBool True), (''result'', JString ''test'')]
   \<and> execute_tool example_env 0 example_manager ''count'' (JObject []) ''req-124''
     = JObject [(''success'', JBool True), (''result'', JString ''3 rows (image)'')]
   \<and> execute_tool long_integer_env 0 example_manager ''count'' (JObject []) ''req-125''
     = JObject
         [(''error'',
           JString
             (''Tool execution failed: ''
              @ ''Exceeds the limit (4300 digits) for integer string conversion: ''
              @ ''value has 4301 digits; use sys.set_int_max_str_digits() to increase the limit''))]"
proof -
  have q1: "first_advertising (server_sessions example_manager) ''query''
              = Some (example_session 1 True [''query'', ''insert''])"
    by (simp add: example_manager_def example_session_def example_tool_def)
  have q2: "call_tool example_env 0 (session (example_session 1 True [''query'', ''insert'']))
              ''query'' (JObject [(''arg'', JString ''value'')]) = Inr [TextContent test_payload]"
    by (simp add: example_env_def)
  have q3: "json_loads example_env test_payload
              = Inr (JObject [(''success'', JBool True), (''result'', JString ''test'')])"
    unfolding example_env_def by (simp, code_simp)
  have c1: "first_advertising (server_sessions example_manager) ''count''
              = Some (example_session 3 True [''query'', ''count''])"
    by (simp add: example_manager_def example_session_def example_tool_def)
  have c2: "call_tool example_env 0 (session (example_session 3 True [''query'', ''count'']))
              ''count'' (JObject []) = Inr [TextContent ''3 rows'', OtherContent '' (image)'']"
    by (simp add: example_env_def)
  have c3: "json_loads example_env
              (concat (map content_str [TextContent ''3 rows'', OtherContent '' (image)'']))
              = Inl JSONDecodeError"
    unfolding example_env_def by (simp, code_simp)
  have d2: "call_tool long_integer_env 0 (session (example_session 3 True [''query'', ''count'']))
              ''count'' (JObject []) = Inr [TextContent long_integer_payload]"
    by (simp add: long_integer_env_def)
  have d3: "json_loads long_integer_env
              (concat (map content_str [TextContent long_integer_payload]))
              = Inl (digit_limit_error 4301)"
    by (simp add: long_integer_env_def example_env_def long_integer_refused)
  from execute_tool_payload [OF q1 q2, of "''req-123''"] q3
  have a: "execute_tool example_env 0 example_manager ''query''
             (JObject [(''arg'', JString ''value'')]) ''req-123''
             = JObject [(''success'', JBool True), (''result'', JString ''test'')]"
    by simp
  from execute_tool_payload [OF c1 c2, of "''req-124''"] c3
  have b: "execute_tool example_env 0 example_manager ''count'' (JObject []) ''req-124''
             = JObject [(''success'', JBool True), (''result'', JString ''3 rows (image)'')]"
    by simp
  from execute_tool_payload [OF c1 d2, of "''req-125''"] d3
  have c: "execute_tool long_integer_env 0 example_manager ''count'' (JObject []) ''req-125''
     = JObject
         [(''error'',
           JString
             (''Tool execution failed: ''
              @ ''Exceeds the limit (4300 digits) for integer string conversion: ''
              @ ''value has 4301 digits; use sys.set_int_max_str_digits() to increase the limit''))]"
    by (simp add: digit_limit_text)
  from a b c show ?thesis by simp
qed

text \<open>
  Claim C4 as the specification states it, that a text which does not parse is always
  wrapped, fails on the integer literal of 4301 digits: \<open>json.loads\<close> raises \<open>ValueError\<close>, which is no
  \<open>JSONDecodeError\<close>, so the outer handler answers with the execution-failed dict and
  the text is not wrapped.
\<close>

theorem execute_tool_payload_counterexample:
  "json_loads long_integer_env long_integer_payload = Inl (digit_limit_error 4301)
   \<and> execute_tool long_integer_env 0 example_manager ''count'' (JObject []) ''req-125''
       = tool_execution_failed
           (''Exceeds the limit (4300 digits) for integer string conversion: ''
            @ ''value has 4301 digits; use sys.set_int_max_str_digits() to increase the limit'')
   \<and> execute_tool long_integer_env 0 example_manager ''count'' (JObject []) ''req-125''
       \<noteq> JObject [(''success'', JBool True), (''result'', JString long_integer_payload)]"
proof -
  have l: "json_loads long_integer_env long_integer_payload = Inl (digit_limit_error 4301)"
    by (simp add: long_integer_env_def example_env_def long_integer_refused)
  have c1: "first_advertising (server_sessions example_manager) ''count''
              = Some (example_session 3 True [''query'', ''count''])"
    by (simp add: example_manager_def example_session_def example_tool_def)
  have d2: "call_tool long_integer_env 0 (session (example_session 3 True [''query'', ''count'']))
              ''count'' (JObject []) = Inr [TextContent long_integer_payload]"
    by (simp add: long_integer_env_def)
  have r: "execute_tool long_integer_env 0 example_manager ''count'' (JObject []) ''req-125''
             = tool_execution_failed
           (''Exceeds the limit (4300 digits) for integer string conversion: ''
            @ ''value has 4301 digits; use sys.set_int_max_str_digits() to increase the limit'')"
    unfolding execute_tool_returned [OF c1 d2]
    by (simp add: parse_result_def l digit_limit_text)
  from l r show ?thesis by (simp add: tool_execution_failed_def)
qed

section \<open>Launching the backends\<close>

lemma set_update_subset: "set (AList.update k v al) \<subseteq> insert (k, v) (set al)"
  by (induction al) auto

lemma keys_update: "fst ` set (AList.update k v al) = insert k (fst ` set al)"
  by (induction al) auto

lemma length_update_le: "length (AList.update k v al) \<le> Suc (length al)"
  by (induction al) auto

lemma launch_healthy: "launch e i c = Inr s \<Longrightarrow> healthy s"
  by (auto simp: launch_def split: sum.splits)

lemma loop_configs:
  "fst (initialize_servers_loop e i cs ss) =
     map (\<lambda>(j, c). if enabled c \<and> isl (launch e j c) then c\<lparr>enabled := False\<rparr> else c)
         (enumerate i cs)"
  by (induction cs arbitrary: i ss) (simp_all add: case_prod_beta split: sum.splits)

lemma loop_count:
  "length (snd (initialize_servers_loop e i cs ss)) \<le> length ss + length (filter enabled cs)"
proof (induction cs arbitrary: i ss)
  case Nil
  then show ?case by simp
next
  case (Cons c cs)
  show ?case
  proof (cases "enabled c")
    case False
    with Cons.IH [of "Suc i" ss] show ?thesis by (simp add: case_prod_beta)
  next
    case True
    show ?thesis
    proof (cases "launch e i c")
      case (Inl err)
      with True Cons.IH [of "Suc i" ss] show ?thesis by (simp add: case_prod_beta)
    next
      case (Inr info)
      with True Cons.IH [of "Suc i" "AList.update (MCPServerConfig.name c) info ss"]
        length_update_le [of "MCPServerConfig.name c" info ss]
      show ?thesis by (simp add: case_prod_beta)
    qed
  qed
qed

lemma loop_origin:
  "(n, s) \<in> set (snd (initialize_servers_loop e i cs ss)) \<Longrightarrow>
   (n, s) \<in> set ss
   \<or> (\<exists>j < length cs. enabled (cs ! j) \<and> MCPServerConfig.name (cs ! j) = n
        \<and> launch e (i + j) (cs ! j) = Inr s)"
proof (induction cs arbitrary: i ss)
  case Nil
  then show ?case by simp
next
  case (Cons c cs)
  let ?P = "\<lambda>cs i. \<exists>j < length cs. enabled (cs ! j) \<and> MCPServerConfig.name (cs ! j) = n
        \<and> launch e (i + j) (cs ! j) = Inr s"
  have shift: "?P cs (Suc i) \<Longrightarrow> ?P (c # cs) i"
  proof -
    assume "?P cs (Suc i)"
    then obtain j where "j < length cs" "enabled (cs ! j)" "MCPServerConfig.name (cs ! j) = n"
      "launch e (Suc i + j) (cs ! j) = Inr s" by blast
    then have "Suc j < length (c # cs) \<and> enabled ((c # cs) ! Suc j)
      \<and> MCPServerConfig.name ((c # cs) ! Suc j) = n
      \<and> launch e (i + Suc j) ((c # cs) ! Suc j) = Inr s"
      by simp
    then show ?thesis by blast
  qed
  show ?case
  proof (cases "enabled c")
    case False
    with Cons.prems have "(n, s) \<in> set (snd (initialize_servers_loop e (Suc i) cs ss))"
      by (simp add: case_prod_beta)
    from Cons.IH [OF this] shift show ?thesis by blast
  next
    case True
    show ?thesis
    proof (cases "launch e i c")
      case (Inl err)
      with True Cons.prems have "(n, s) \<in> set (snd (initialize_servers_loop e (Suc i) cs ss))"
        by (simp add: case_prod_beta)
      from Cons.IH [OF this] shift show ?thesis by blast
    next
      case (Inr info)
      with True Cons.prems
      have "(n, s) \<in> set (snd (initialize_servers_loop e (Suc i) cs
                (AList.update (MCPServerConfig.name c) info ss)))"
        by (simp add: case_prod_beta)
      from Cons.IH [OF this]
      consider "(n, s) \<in> set (AList.update (MCPServerConfig.name c) info ss)" | "?P cs (Suc i)"
        by blast
      then show ?thesis
      proof cases
        case 1
        with set_update_subset [of "MCPServerConfig.name c" info ss]
        have "(n, s) = (MCPServerConfig.name c, info) \<or> (n, s) \<in> set ss" by blast
        then show ?thesis
        proof
          assume "(n, s) = (MCPServerConfig.name c, info)"
          with True Inr have "0 < length (c # cs) \<and> enabled ((c # cs) ! 0)
            \<and> MCPServerConfig.name ((c # cs) ! 0) = n \<and> launch e (i + 0) ((c # cs) ! 0) = Inr s"
            by simp
          then show ?thesis by blast
        next
          assume "(n, s) \<in> set ss"
          then show ?thesis by simp
        qed
      next
        case 2
        with shift show ?thesis by blast
      qed
    qed
  qed
qed

lemma loop_keys_mono:
  "fst ` set ss \<subseteq> fst ` set (snd (initialize_servers_loop e i cs ss))"
proof (induction cs arbitrary: i ss)
  case Nil
  then show ?case by simp
next
  case (Cons c cs)
  show ?case
  proof (cases "enabled c")
    case False
    with Cons.IH [of ss "Suc i"] show ?thesis by (simp add: case_prod_beta)
  next
    case True
    show ?thesis
    proof (cases "launch e i c")
      case (Inl err)
      with True Cons.IH [of ss "Suc i"] show ?thesis by (simp add: case_prod_beta)
    next
      case (Inr info)
      with True Cons.IH [of "AList.update (MCPServerConfig.name c) info ss" "Suc i"]
      show ?thesis by (auto simp: keys_update case_prod_beta)
    qed
  qed
qed

lemma loop_registers:
  "j < length cs \<Longrightarrow> enabled (cs ! j) \<Longrightarrow> launch e (i + j) (cs ! j) = Inr s \<Longrightarrow>
   MCPServerConfig.name (cs ! j) \<in> fst ` set (snd (initialize_servers_loop e i cs ss))"
proof (induction cs arbitrary: i j ss)
  case Nil
  then show ?case by simp
next
  case (Cons c cs)
  show ?case
  proof (cases j)
    case 0
    with Cons.prems have en: "enabled c" and la: "launch e i c = Inr s" by simp_all
    have "MCPServerConfig.name c \<in> fst ` set (AList.update (MCPServerConfig.name c) s ss)"
      by (simp add: keys_update)
    with loop_keys_mono [of "AList.update (MCPServerConfig.name c) s ss" e "Suc i" cs]
    have "MCPServerConfig.name c
            \<in> fst ` set (snd (initialize_servers_loop e (Suc i) cs
                               (AList.update (MCPServerConfig.name c) s ss)))"
      by blast
    with en la 0 show ?thesis by (simp add: case_prod_beta)
  next
    case (Suc j')
    with Cons.prems have p: "j' < length cs" "enabled (cs ! j')"
      "launch e (Suc i + j') (cs ! j') = Inr s" by simp_all
    have "MCPServerConfig.name (cs ! j')
            \<in> fst ` set (snd (initialize_servers_loop e (Suc i) cs ss'))" for ss'
      using Cons.IH [OF p] .
    then show ?thesis using Suc by (simp add: case_prod_beta split: sum.splits)
  qed
qed

text \<open>
  Claim C1. For every list of descriptors, \<open>initialize_servers\<close> creates a session only
  for a descriptor that was enabled and whose launch and handshake succeeded (every
  entry of the registry afterwards was there before or is the session of such a
  descriptor, stored under its name), and such a session starts with \<open>healthy = True\<close>;
  the registry grows by no more than the number of enabled descriptors; a descriptor is
  changed only when it was enabled and its launch failed, and then only its \<open>enabled\<close>
  flag is cleared; and every enabled descriptor whose launch succeeds is registered,
  whatever happened to the descriptors before it.
\<close>

theorem initialize_servers_launches:
  "(\<forall>(n, s) \<in> set (server_sessions (initialize_servers e i mgr)).
      (n, s) \<in> set (server_sessions mgr)
      \<or> (\<exists>j < length (server_configs mgr).
            enabled (server_configs mgr ! j)
            \<and> MCPServerConfig.name (server_configs mgr ! j) = n
            \<and> launch e (i + j) (server_configs mgr ! j) = Inr s
            \<and> healthy s))
   \<and> length (server_sessions (initialize_servers e i mgr))
       \<le> length (server_sessions mgr) + length (filter enabled (server_configs mgr))
   \<and> server_configs (initialize_servers e i mgr) =
       map (\<lambda>(j, c). if enabled c \<and> isl (launch e j c) then c\<lparr>enabled := False\<rparr> else c)
           (enumerate i (server_configs mgr))
   \<and> (\<forall>j < length (server_configs mgr).
         enabled (server_configs mgr ! j) \<and> \<not> isl (launch e (i + j) (server_configs mgr ! j))
         \<longrightarrow> MCPServerConfig.name (server_configs mgr ! j)
               \<in> fst ` set (server_sessions (initialize_servers e i mgr)))"
proof -
  let ?r = "initialize_servers_loop e i (server_configs mgr) (server_sessions mgr)"
  have ss: "server_sessions (initialize_servers e i mgr) = snd ?r"
    and cs: "server_configs (initialize_servers e i mgr) = fst ?r"
    by (simp_all add: initialize_servers_def case_prod_beta)
  have a: "\<forall>(n, s) \<in> set (snd ?r).
      (n, s) \<in> set (server_sessions mgr)
      \<or> (\<exists>j < length (server_configs mgr).
            enabled (server_configs mgr ! j)
            \<and> MCPServerConfig.name (server_configs mgr ! j) = n
            \<and> launch e (i + j) (server_configs mgr ! j) = Inr s
            \<and> healthy s)"
  proof (clarify)
    fix n s
    assume "(n, s) \<in> set (snd ?r)" and "\<not> (\<exists>j < length (server_configs mgr).
            enabled (server_configs mgr ! j)
            \<and> MCPServerConfig.name (server_configs mgr ! j) = n
            \<and> launch e (i + j) (server_configs mgr ! j) = Inr s
            \<and> healthy s)"
    with loop_origin [of n s e i "server_configs mgr" "server_sessions mgr"] launch_healthy
    show "(n, s) \<in> set (server_sessions mgr)" by blast
  qed
  have d: "\<forall>j < length (server_configs mgr).
         enabled (server_configs mgr ! j) \<and> \<not> isl (launch e (i + j) (server_configs mgr ! j))
         \<longrightarrow> MCPServerConfig.name (server_configs mgr ! j) \<in> fst ` set (snd ?r)"
  proof (intro allI impI)
    fix j
    assume j: "j < length (server_configs mgr)"
      and "enabled (server_configs mgr ! j) \<and> \<not> isl (launch e (i + j) (server_configs mgr ! j))"
    then obtain s where "enabled (server_configs mgr ! j)"
      "launch e (i + j) (server_configs mgr ! j) = Inr s"
      by (cases "launch e (i + j) (server_configs mgr ! j)") auto
    with j show "MCPServerConfig.name (server_configs mgr ! j) \<in> fst ` set (snd ?r)"
      by (rule loop_registers)
  qed
  from a d loop_count [of e i "server_configs mgr" "server_sessions mgr"]
    loop_configs [of e i "server_configs mgr" "server_sessions mgr"]
  show ?thesis unfolding ss cs by blast
qed

theorem initialize_servers_launches_witness:
  "server_sessions
     (initialize_servers example_env 0 (MCPSessionManager_init\<lparr>server_configs := example_configs\<rparr>))
   = [(''sqlite-database'',
       \<lparr>session = 100, stdio = 0, tools = [example_tool ''query''], healthy = True,
        last_check = 1000\<rparr>),
      (''files'',
       \<lparr>session = 104, stdio = 4, tools = [example_tool ''query''], healthy = True,
        last_check = 1004\<rparr>)]
   \<and> map enabled
       (server_configs
          (initialize_servers example_env 0
             (MCPSessionManager_init\<lparr>server_configs := example_configs\<rparr>)))
     = [True, False, False, False, True]
   \<and> length (filter enabled example_configs) = 4"
  using initialize_servers_launches
          [of example_env 0 "MCPSessionManager_init\<lparr>server_configs := example_configs\<rparr>"]
  by (simp add: initialize_servers_def MCPSessionManager_init_def example_configs_def
      example_config_def example_env_def launch_def server_params_def endswith_def)

section \<open>Health check\<close>

lemma health_check_loop_eq:
  "health_check_loop e i ss =
     map (\<lambda>(j, (server_name, info)).
            (server_name, info\<lparr>healthy := True, last_check := time_time e j\<rparr>))
         (enumerate i ss)"
  by (induction ss arbitrary: i) (auto simp: health_probe_def)

text \<open>
  Claim C9. \<open>health_check_all\<close> sets \<open>healthy = True\<close> and refreshes \<open>last_check\<close> for every
  session of the registry, unconditionally. The body of its \<open>try\<close> never fails, so the
  \<open>except\<close> branch is never taken; it asks nothing of the backends (its result depends
  on the environment through the clock alone); and a session that was unhealthy before
  the pass is healthy after it.
\<close>

theorem health_check_all_restores:
  "(\<forall>now info. \<exists>info'. health_probe now info = Inr info')
   \<and> server_sessions (health_check_all e i mgr) =
       map (\<lambda>(j, (server_name, info)).
              (server_name, info\<lparr>healthy := True, last_check := time_time e j\<rparr>))
           (enumerate i (server_sessions mgr))
   \<and> (\<forall>(server_name, info) \<in> set (server_sessions (health_check_all e i mgr)). healthy info)
   \<and> (\<forall>e' :: env. time_time e' = time_time e
         \<longrightarrow> health_check_all e' i mgr = health_check_all e i mgr)"
proof (intro conjI allI impI)
  fix now info
  show "\<exists>info'. health_probe now info = Inr info'"
    by (simp add: health_probe_def)
next
  show "server_sessions (health_check_all e i mgr) =
       map (\<lambda>(j, (server_name, info)).
              (server_name, info\<lparr>healthy := True, last_check := time_time e j\<rparr>))
           (enumerate i (server_sessions mgr))"
    by (simp add: health_check_all_def health_check_loop_eq)
next
  show "\<forall>(server_name, info) \<in> set (server_sessions (health_check_all e i mgr)). healthy info"
    by (auto simp: health_check_all_def health_check_loop_eq)
next
  fix e' :: env
  assume "time_time e' = time_time e"
  then show "health_check_all e' i mgr = health_check_all e i mgr"
    by (simp add: health_check_all_def health_check_loop_eq)
qed

theorem health_check_all_restores_witness:
  "map (\<lambda>(server_name, info). (server_name, healthy info, last_check info))
     (server_sessions example_manager)
     = [(''a'', True, 0), (''b'', False, 0), (''c'', True, 0)]
   \<and> map (\<lambda>(server_name, info). (server_name, healthy info, last_check info))
       (server_sessions (health_check_all example_env 7 example_manager))
     = [(''a'', True, 1007), (''b'', True, 1008), (''c'', True, 1009)]
   \<and> get_all_tools (health_check_all example_env 7 example_manager)
     = [tool_def (example_tool ''query''), tool_def (example_tool ''insert''),
        tool_def (example_tool ''drop''),
        tool_def (example_tool ''query''), tool_def (example_tool ''count'')]"
  using health_check_all_restores [of example_env 7 example_manager]
  by (simp add: example_manager_def example_session_def example_env_def enumerate_eq_zip
      get_all_tools_def health_check_all_def upt_rec)

section \<open>Default configuration\<close>

lemma load_default_servers:
  "load_servers default_servers =
     Inr [\<lparr>MCPServerConfig.name = ''sqlite-database'', script_path = ''mcp_sandbox.server'',
           enabled = True, timeout = 30, max_retries = 3, health_check_interval = 60,
           metadata = [(''description'', JString ''SQLite database MCP server''),
                       (''version'', JString ''1.0.0'')]\<rparr>]"
  by (simp add: load_servers_def default_servers_def MCPServerConfig_of_def known_fields_def
      field_or_def)

text \<open>
  Claim C8. When \<open>load_configuration\<close> finds no file at the path, it builds exactly one
  descriptor, the bundled \<open>sqlite-database\<close> backend, and writes the default document
  to the path. Reloading from the files it leaves gives a descriptor list equal to the
  synthesized one, provided \<open>json.loads\<close> reads back the document that \<open>json.dumps\<close>
  wrote (the library's own round trip, which the codec above has on this document).
\<close>

theorem default_configuration_round_trip:
  assumes "fs config_path = None"
  shows "load_configuration e fs config_path mgr =
           Inr (fs(config_path \<mapsto> json_dumps e default_config),
                mgr\<lparr>server_configs :=
                  [\<lparr>MCPServerConfig.name = ''sqlite-database'',
                    script_path = ''mcp_sandbox.server'', enabled = True, timeout = 30,
                    max_retries = 3, health_check_interval = 60,
                    metadata = [(''description'', JString ''SQLite database MCP server''),
                                (''version'', JString ''1.0.0'')]\<rparr>]\<rparr>)
         \<and> (json_loads e (json_dumps e default_config) = Inr default_config \<longrightarrow>
              (\<forall>mgr'. load_configuration e (fs(config_path \<mapsto> json_dumps e default_config))
                        config_path mgr' =
                 Inr (fs(config_path \<mapsto> json_dumps e default_config),
                      mgr'\<lparr>server_configs :=
                        [\<lparr>MCPServerConfig.name = ''sqlite-database'',
                          script_path = ''mcp_sandbox.server'', enabled = True, timeout = 30,
                          max_retries = 3, health_check_interval = 60,
                          metadata = [(''description'', JString ''SQLite database MCP server''),
                                      (''version'', JString ''1.0.0'')]\<rparr>]\<rparr>)))"
proof (intro conjI impI allI)
  show "load_configuration e fs config_path mgr =
           Inr (fs(config_path \<mapsto> json_dumps e default_config),
                mgr\<lparr>server_configs :=
                  [\<lparr>MCPServerConfig.name = ''sqlite-database'',
                    script_path = ''mcp_sandbox.server'', enabled = True, timeout = 30,
                    max_retries = 3, health_check_interval = 60,
                    metadata = [(''description'', JString ''SQLite database MCP server''),
                                (''version'', JString ''1.0.0'')]\<rparr>]\<rparr>)"
    using assms
    by (simp add: load_configuration_def create_default_configuration_def load_default_servers)
next
  fix mgr'
  assume "json_loads e (json_dumps e default_config) = Inr default_config"
  then show "load_configuration e (fs(config_path \<mapsto> json_dumps e default_config))
                        config_path mgr' =
                 Inr (fs(config_path \<mapsto> json_dumps e default_config),
                      mgr'\<lparr>server_configs :=
                        [\<lparr>MCPServerConfig.name = ''sqlite-database'',
                          script_path = ''mcp_sandbox.server'', enabled = True, timeout = 30,
                          max_retries = 3, health_check_interval = 60,
                          metadata = [(''description'', JString ''SQLite database MCP server''),
                                      (''version'', JString ''1.0.0'')]\<rparr>]\<rparr>)"
    by (simp add: load_configuration_def default_config_def field_or_def load_default_servers)
qed

theorem default_configuration_round_trip_witness:
  "json_loads example_env (json_dumps example_env default_config) = Inr default_config
   \<and> map_sum id (server_configs \<circ> snd)
       (load_configuration example_env Map.empty ''config/mcp.json'' MCPSessionManager_init)
     = Inr [\<lparr>MCPServerConfig.name = ''sqlite-database'',
             script_path = ''mcp_sandbox.server'', enabled = True, timeout = 30,
             max_retries = 3, health_check_interval = 60,
             metadata = [(''description'', JString ''SQLite database MCP server''),
                         (''version'', JString ''1.0.0'')]\<rparr>]
   \<and> map_sum id (server_configs \<circ> snd)
       (load_configuration example_env
          [''config/mcp.json'' \<mapsto> json_dumps example_env default_config]
          ''config/mcp.json'' MCPSessionManager_init)
     = map_sum id (server_configs \<circ> snd)
         (load_configuration example_env Map.empty ''config/mcp.json'' MCPSessionManager_init)"
proof -
  have h1: "(Map.empty :: files) ''config/mcp.json'' = None" by simp
  have h2: "json_loads example_env (json_dumps example_env default_config) = Inr default_config"
    unfolding example_env_def by (simp, code_simp)
  from default_configuration_round_trip
         [OF h1, where e = example_env and mgr = MCPSessionManager_init] h2
  show ?thesis by simp
qed

section \<open>Metrics summary\<close>

lemma count_successful_filter: "count_successful ms = length (filter success ms)"
  by (induction ms) simp_all

lemma rate_2_of_3: "success_rate_text 2 3 = ''66.7%''"
  by code_simp

text \<open>
  Claim C7. On an empty log \<open>get_summary\<close> returns the sentinel
  \<open>{"message": "No metrics available"}\<close>. It is a function of the log alone. For every log
  of three metrics of which two have \<open>success = True\<close> and one has \<open>success = False\<close>,
  the summary reports \<open>success_rate = "66.7%"\<close> (the double \<open>(2/3)*100\<close> printed with one
  decimal) and \<open>failed = 1\<close>, whatever the times in the metrics are.
\<close>

theorem get_summary_counts:
  "get_summary [] = JObject [(''message'', JString ''No metrics available'')]
   \<and> (length (filter success ms) = 2 \<and> length (filter (\<lambda>m. \<not> success m) ms) = 1 \<longrightarrow>
        (\<exists>kvs. get_summary ms = JObject kvs
           \<and> map_of kvs ''total_requests'' = Some (JInt 3)
           \<and> map_of kvs ''successful'' = Some (JInt 2)
           \<and> map_of kvs ''failed'' = Some (JInt 1)
           \<and> map_of kvs ''success_rate'' = Some (JString ''66.7%'')))"
proof (intro conjI impI)
  show "get_summary [] = JObject [(''message'', JString ''No metrics available'')]"
    by (simp add: get_summary_def)
next
  assume h: "length (filter success ms) = 2 \<and> length (filter (\<lambda>m. \<not> success m) ms) = 1"
  have "length ms = length (filter success ms) + length (filter (\<lambda>m. \<not> success m) ms)"
    by (rule sum_length_filter_compl [symmetric])
  with h have len: "length ms = 3" by simp
  then have ne: "ms \<noteq> []" by auto
  from h have cnt: "count_successful ms = 2" by (simp add: count_successful_filter)
  show "\<exists>kvs. get_summary ms = JObject kvs
           \<and> map_of kvs ''total_requests'' = Some (JInt 3)
           \<and> map_of kvs ''successful'' = Some (JInt 2)
           \<and> map_of kvs ''failed'' = Some (JInt 1)
           \<and> map_of kvs ''success_rate'' = Some (JString ''66.7%'')"
    by (simp add: get_summary_def ne len cnt rate_2_of_3 Let_def)
qed

theorem get_summary_counts_witness:
  "get_summary test_metrics =
     JObject [(''total_requests'', JInt 3), (''successful'', JInt 2), (''failed'', JInt 1),
              (''success_rate'', JString ''66.7%''), (''avg_duration_seconds'', JString ''3.33'')]"
proof -
  have h: "length (filter success test_metrics) = 2
           \<and> length (filter (\<lambda>m. \<not> success m) test_metrics) = 1"
    by (simp add: test_metrics_def RequestMetrics_new_def)
  have avg: "format_fixed 2 (to_double (float_sum (durations test_metrics) / to_double (of_nat 3)))
               = ''3.33''"
    unfolding test_metrics_def RequestMetrics_new_def by code_simp
  from get_summary_counts [of test_metrics] h
  obtain kvs where k: "get_summary test_metrics = JObject kvs"
    "map_of kvs ''success_rate'' = Some (JString ''66.7%'')" by blast
  have n: "test_metrics \<noteq> []" "length test_metrics = 3" "count_successful test_metrics = 2"
    by (simp_all add: test_metrics_def RequestMetrics_new_def)
  have "get_summary test_metrics =
     JObject [(''total_requests'', JInt 3), (''successful'', JInt 2), (''failed'', JInt 1),
              (''success_rate'', JString (success_rate_text 2 3)),
              (''avg_duration_seconds'',
               JString (format_fixed 2 (to_double (float_sum (durations test_metrics) / to_double (of_nat 3)))))]"
    by (simp add: get_summary_def Let_def n)
  with k avg show ?thesis by auto
qed

section \<open>Chat client: history, retries and metrics\<close>

declare retry_loop.simps [simp del]

lemma execute_chat_no_tools:
  "get_all_tools (session_manager st) = [] \<Longrightarrow>
   execute_chat e user_message rid st =
     (Inr no_tools_text,
      st\<lparr>conversation_history := conversation_history st @ [UserText user_message]\<rparr>)"
  by (simp add: execute_chat_def)

lemma execute_chat_raises:
  assumes "get_all_tools (session_manager st) \<noteq> []"
    and "messages_create e (length (model_requests st))
           (make_request (conversation_history st @ [UserText user_message])
              (Some (get_all_tools (session_manager st)))) = Inl ex"
  shows "execute_chat e user_message rid st =
     (Inl ex,
      st\<lparr>conversation_history := conversation_history st @ [UserText user_message],
         model_requests := model_requests st
           @ [make_request (conversation_history st @ [UserText user_message])
                (Some (get_all_tools (session_manager st)))]\<rparr>)"
  using assms by (simp add: execute_chat_def call_model_def)

lemma run_tools_frame:
  "metrics_collector (snd (run_tools e rid bs acc st)) = metrics_collector st
   \<and> model_requests (snd (run_tools e rid bs acc st)) = model_requests st
   \<and> conversation_history (snd (run_tools e rid bs acc st)) = conversation_history st
   \<and> session_manager (snd (run_tools e rid bs acc st)) = session_manager st
   \<and> sleeps (snd (run_tools e rid bs acc st)) = sleeps st
   \<and> clock_reads (snd (run_tools e rid bs acc st)) = clock_reads st"
  by (induction e rid bs acc st rule: run_tools.induct) (simp_all add: Let_def)

lemma execute_chat_frame:
  "metrics_collector (snd (execute_chat e msg rid st)) = metrics_collector st
   \<and> session_manager (snd (execute_chat e msg rid st)) = session_manager st
   \<and> clock_reads (snd (execute_chat e msg rid st)) = clock_reads st"
  by (auto simp: execute_chat_def call_model_def Let_def run_tools_frame case_prod_beta
      split: sum.splits)

lemma execute_chat_first_request:
  assumes "get_all_tools (session_manager st) \<noteq> []"
  shows "\<exists>more. model_requests (snd (execute_chat e msg rid st)) =
           model_requests st
           @ make_request (conversation_history st @ [UserText msg])
               (Some (get_all_tools (session_manager st))) # more"
  using assms
  by (auto simp: execute_chat_def call_model_def Let_def run_tools_frame case_prod_beta
      split: sum.splits)

lemma finish_fields:
  "metrics_collector (finish e m st) =
     metrics_collector st @ [m\<lparr>end_time := Some (time_time e (clock_reads st))\<rparr>]"
  "model_requests (finish e m st) = model_requests st"
  "sleeps (finish e m st) = sleeps st"
  "conversation_history (finish e m st) = conversation_history st"
  "session_manager (finish e m st) = session_manager st"
  "clock_reads (finish e m st) = Suc (clock_reads st)"
  "tool_invocations (finish e m st) = tool_invocations st"
  by (simp_all add: finish_def read_clock_def add_metric_def)

lemma retry_loop_exhausted: "\<not> attempt < n \<Longrightarrow> retry_loop e msg n attempt m st = (None, st)"
  by (simp add: retry_loop.simps)

lemma chat_with_claude_unfold:
  "chat_with_claude e msg n st =
     retry_loop e msg n 0
       (RequestMetrics_new
          (''req_'' @ str_int (trunc (to_double (time_time e (clock_reads st) * 1000))))
          (time_time e (Suc (clock_reads st))))
       (st\<lparr>clock_reads := Suc (Suc (clock_reads st))\<rparr>)"
  by (simp add: chat_with_claude_def read_clock_def)

text \<open>
  Claim C10. \<open>_execute_chat\<close> appends the user message to the history before it looks at
  the catalog: with an empty catalog it returns the diagnostic text without a request to
  the model, and the history has grown by that user turn. The turn is then part of what
  the next send gives the model: once a backend is available, the next request carries
  the history with both user messages.
\<close>

theorem execute_chat_keeps_user_turn:
  "get_all_tools (session_manager st) = [] \<longrightarrow>
     execute_chat e user_message rid st =
       (Inr no_tools_text,
        st\<lparr>conversation_history := conversation_history st @ [UserText user_message]\<rparr>)
     \<and> model_requests (snd (execute_chat e user_message rid st)) = model_requests st
     \<and> (\<forall>mgr' next_message rid'.
          get_all_tools mgr' \<noteq> [] \<longrightarrow>
          model_requests
            (snd (execute_chat e next_message rid'
                    ((snd (execute_chat e user_message rid st))\<lparr>session_manager := mgr'\<rparr>)))
            ! length (model_requests st)
          = make_request
              (conversation_history st @ [UserText user_message, UserText next_message])
              (Some (get_all_tools mgr')))"
proof (intro impI conjI allI)
  assume no: "get_all_tools (session_manager st) = []"
  show first: "execute_chat e user_message rid st =
       (Inr no_tools_text,
        st\<lparr>conversation_history := conversation_history st @ [UserText user_message]\<rparr>)"
    using no by (rule execute_chat_no_tools)
  then show "model_requests (snd (execute_chat e user_message rid st)) = model_requests st"
    by simp
  fix mgr' next_message rid'
  assume tools: "get_all_tools mgr' \<noteq> []"
  let ?st' = "(snd (execute_chat e user_message rid st))\<lparr>session_manager := mgr'\<rparr>"
  have "get_all_tools (session_manager ?st') \<noteq> []" using tools by simp
  from execute_chat_first_request [OF this, of e next_message rid']
  obtain more where "model_requests (snd (execute_chat e next_message rid' ?st')) =
       model_requests ?st'
       @ make_request (conversation_history ?st' @ [UserText next_message])
           (Some (get_all_tools (session_manager ?st'))) # more"
    by blast
  then show "model_requests (snd (execute_chat e next_message rid' ?st')) ! length (model_requests st)
          = make_request
              (conversation_history st @ [UserText user_message, UserText next_message])
              (Some (get_all_tools mgr'))"
    by (simp add: first nth_append)
qed

lemma example_catalog: "get_all_tools example_manager \<noteq> []"
  by (simp add: get_all_tools_def example_manager_def example_session_def)

theorem execute_chat_keeps_user_turn_witness:
  "get_all_tools (session_manager MCPClient_init) = []
   \<and> execute_chat example_env ''first'' ''req_1'' MCPClient_init
       = (Inr no_tools_text, MCPClient_init\<lparr>conversation_history := [UserText ''first'']\<rparr>)
   \<and> messages
       (model_requests
          (snd (execute_chat example_env ''second'' ''req_2''
                  ((snd (execute_chat example_env ''first'' ''req_1'' MCPClient_init))
                     \<lparr>session_manager := example_manager\<rparr>))) ! 0)
     = [UserText ''first'', UserText ''second'']"
proof -
  have h: "get_all_tools (session_manager MCPClient_init) = []"
    by (simp add: MCPClient_init_def MCPSessionManager_init_def get_all_tools_def)
  have l: "length (model_requests MCPClient_init) = 0" "conversation_history MCPClient_init = []"
    by (simp_all add: MCPClient_init_def)
  from execute_chat_keeps_user_turn [of MCPClient_init example_env "''first''" "''req_1''"] h
  have a: "execute_chat example_env ''first'' ''req_1'' MCPClient_init
             = (Inr no_tools_text,
                MCPClient_init\<lparr>conversation_history :=
                  conversation_history MCPClient_init @ [UserText ''first'']\<rparr>)"
    and b: "\<forall>mgr' next_message rid'.
          get_all_tools mgr' \<noteq> [] \<longrightarrow>
          model_requests
            (snd (execute_chat example_env next_message rid'
                    ((snd (execute_chat example_env ''first'' ''req_1'' MCPClient_init))
                       \<lparr>session_manager := mgr'\<rparr>)))
            ! length (model_requests MCPClient_init)
          = make_request
              (conversation_history MCPClient_init @ [UserText ''first'', UserText next_message])
              (Some (get_all_tools mgr'))"
    by blast+
  from b example_catalog
  have "model_requests
            (snd (execute_chat example_env ''second'' ''req_2''
                    ((snd (execute_chat example_env ''first'' ''req_1'' MCPClient_init))
                       \<lparr>session_manager := example_manager\<rparr>)))
            ! length (model_requests MCPClient_init)
          = make_request
              (conversation_history MCPClient_init @ [UserText ''first'', UserText ''second''])
              (Some (get_all_tools example_manager))"
    by blast
  then have c: "messages
       (model_requests
          (snd (execute_chat example_env ''second'' ''req_2''
                  ((snd (execute_chat example_env ''first'' ''req_1'' MCPClient_init))
                     \<lparr>session_manager := example_manager\<rparr>))) ! 0)
     = [UserText ''first'', UserText ''second'']"
    by (simp add: l make_request_def)
  from h a c show ?thesis by (simp add: l)
qed

lemma retry_loop_timeouts:
  assumes all: "\<forall>k r. messages_create e k r = Inl APITimeoutError"
  shows "get_all_tools (session_manager st) \<noteq> [] \<Longrightarrow> 0 \<le> attempt \<Longrightarrow>
    n - attempt = int (Suc k) \<Longrightarrow>
    fst (retry_loop e msg n attempt m st)
      = Some (cross_mark @ '' Request timed out after '' @ str_int n @ '' attempts'')
    \<and> length (model_requests (snd (retry_loop e msg n attempt m st)))
        = length (model_requests st) + Suc k
    \<and> sleeps (snd (retry_loop e msg n attempt m st))
        = sleeps st @ map (\<lambda>a. 2 ^ a) [nat attempt ..< nat attempt + k]
    \<and> metrics_collector (snd (retry_loop e msg n attempt m st))
        = metrics_collector st
          @ [m\<lparr>error_type := Some ''timeout'', end_time := Some (time_time e (clock_reads st))\<rparr>]
    \<and> conversation_history (snd (retry_loop e msg n attempt m st))
        = conversation_history st @ replicate (Suc k) (UserText msg)"
proof (induction k arbitrary: attempt st)
  case 0
  let ?st1 = "st\<lparr>conversation_history := conversation_history st @ [UserText msg],
         model_requests := model_requests st
           @ [make_request (conversation_history st @ [UserText msg])
                (Some (get_all_tools (session_manager st)))]\<rparr>"
  have ec: "execute_chat e msg (request_id m) st = (Inl APITimeoutError, ?st1)"
    using execute_chat_raises [OF "0.prems"(1)] all by simp
  from "0.prems" have last: "attempt = n - 1" "attempt < n" by simp_all
  have "retry_loop e msg n attempt m st =
          (Some (cross_mark @ '' Request timed out after '' @ str_int n @ '' attempts''),
           finish e (m\<lparr>error_type := Some ''timeout''\<rparr>) ?st1)"
    by (subst retry_loop.simps) (simp add: ec last)
  then show ?case by (simp add: finish_fields)
next
  case (Suc k)
  let ?st1 = "st\<lparr>conversation_history := conversation_history st @ [UserText msg],
         model_requests := model_requests st
           @ [make_request (conversation_history st @ [UserText msg])
                (Some (get_all_tools (session_manager st)))]\<rparr>"
  let ?st2 = "?st1\<lparr>sleeps := sleeps ?st1 @ [2 ^ nat attempt]\<rparr>"
  have ec: "execute_chat e msg (request_id m) st = (Inl APITimeoutError, ?st1)"
    using execute_chat_raises [OF Suc.prems(1)] all by simp
  from Suc.prems have notlast: "attempt \<noteq> n - 1" "attempt < n" by simp_all
  have step: "retry_loop e msg n attempt m st = retry_loop e msg n (attempt + 1) m ?st2"
    by (subst retry_loop.simps) (simp add: ec notlast)
  have pre: "get_all_tools (session_manager ?st2) \<noteq> []" "0 \<le> attempt + 1"
    "n - (attempt + 1) = int (Suc k)"
    using Suc.prems by simp_all
  have nat1: "nat (attempt + 1) = Suc (nat attempt)" using Suc.prems by simp
  have up: "[nat attempt ..< Suc (nat attempt + k)]
              = nat attempt # [Suc (nat attempt) ..< Suc (nat attempt + k)]"
    by (simp add: upt_conv_Cons del: upt_Suc)
  from Suc.IH [OF pre] show ?case
    unfolding step by (simp add: nat1 up replicate_app_Cons_same del: upt_Suc)
qed

lemma retry_loop_rate_limits:
  assumes all: "\<forall>k r. messages_create e k r = Inl RateLimitError"
  shows "get_all_tools (session_manager st) \<noteq> [] \<Longrightarrow> 0 \<le> attempt \<Longrightarrow>
    n - attempt = int (Suc k) \<Longrightarrow>
    fst (retry_loop e msg n attempt m st)
      = Some (cross_mark @ '' Rate limit exceeded. Please try again later.'')
    \<and> length (model_requests (snd (retry_loop e msg n attempt m st)))
        = length (model_requests st) + Suc k
    \<and> sleeps (snd (retry_loop e msg n attempt m st))
        = sleeps st @ map (\<lambda>a. 5 * (int a + 1)) [nat attempt ..< nat attempt + k]
    \<and> metrics_collector (snd (retry_loop e msg n attempt m st))
        = metrics_collector st
          @ [m\<lparr>error_type := Some ''rate_limit'',
               end_time := Some (time_time e (clock_reads st))\<rparr>]
    \<and> conversation_history (snd (retry_loop e msg n attempt m st))
        = conversation_history st @ replicate (Suc k) (UserText msg)"
proof (induction k arbitrary: attempt st)
  case 0
  let ?st1 = "st\<lparr>conversation_history := conversation_history st @ [UserText msg],
         model_requests := model_requests st
           @ [make_request (conversation_history st @ [UserText msg])
                (Some (get_all_tools (session_manager st)))]\<rparr>"
  have ec: "execute_chat e msg (request_id m) st = (Inl RateLimitError, ?st1)"
    using execute_chat_raises [OF "0.prems"(1)] all by simp
  from "0.prems" have last: "attempt = n - 1" "attempt < n" by simp_all
  have "retry_loop e msg n attempt m st =
          (Some (cross_mark @ '' Rate limit exceeded. Please try again later.''),
           finish e (m\<lparr>error_type := Some ''rate_limit''\<rparr>) ?st1)"
    by (subst retry_loop.simps) (simp add: ec last)
  then show ?case by (simp add: finish_fields)
next
  case (Suc k)
  let ?st1 = "st\<lparr>conversation_history := conversation_history st @ [UserText msg],
         model_requests := model_requests st
           @ [make_request (conversation_history st @ [UserText msg])
                (Some (get_all_tools (session_manager st)))]\<rparr>"
  let ?st2 = "?st1\<lparr>sleeps := sleeps ?st1 @ [5 * (attempt + 1)]\<rparr>"
  have ec: "execute_chat e msg (request_id m) st = (Inl RateLimitError, ?st1)"
    using execute_chat_raises [OF Suc.prems(1)] all by simp
  from Suc.prems have notlast: "attempt \<noteq> n - 1" "attempt < n" by simp_all
  have step: "retry_loop e msg n attempt m st = retry_loop e msg n (attempt + 1) m ?st2"
    by (subst retry_loop.simps) (simp add: ec notlast)
  have pre: "get_all_tools (session_manager ?st2) \<noteq> []" "0 \<le> attempt + 1"
    "n - (attempt + 1) = int (Suc k)"
    using Suc.prems by simp_all
  have nat1: "nat (attempt + 1) = Suc (nat attempt)" using Suc.prems by simp
  have delay: "5 * (attempt + 1) = 5 * (int (nat attempt) + 1)" using Suc.prems by simp
  have up: "[nat attempt ..< Suc (nat attempt + k)]
              = nat attempt # [Suc (nat attempt) ..< Suc (nat attempt + k)]"
    by (simp add: upt_conv_Cons del: upt_Suc)
  from Suc.IH [OF pre] show ?case
    unfolding step delay by (simp add: nat1 up replicate_app_Cons_same del: upt_Suc)
qed

lemma retry_loop_other:
  assumes "get_all_tools (session_manager st) \<noteq> []"
    and "messages_create e (length (model_requests st))
           (make_request (conversation_history st @ [UserText msg])
              (Some (get_all_tools (session_manager st)))) = Inl (OtherError ty etext)"
    and "attempt < n"
  shows "fst (retry_loop e msg n attempt m st) = Some (cross_mark @ '' Error: '' @ etext)
    \<and> length (model_requests (snd (retry_loop e msg n attempt m st)))
        = Suc (length (model_requests st))
    \<and> sleeps (snd (retry_loop e msg n attempt m st)) = sleeps st
    \<and> metrics_collector (snd (retry_loop e msg n attempt m st))
        = metrics_collector st
          @ [m\<lparr>error_type := Some ty, end_time := Some (time_time e (clock_reads st))\<rparr>]"
proof -
  let ?st1 = "st\<lparr>conversation_history := conversation_history st @ [UserText msg],
         model_requests := model_requests st
           @ [make_request (conversation_history st @ [UserText msg])
                (Some (get_all_tools (session_manager st)))]\<rparr>"
  have ec: "execute_chat e msg (request_id m) st = (Inl (OtherError ty etext), ?st1)"
    using execute_chat_raises [OF assms(1,2)] by simp
  have "retry_loop e msg n attempt m st =
          (Some (cross_mark @ '' Error: '' @ etext), finish e (m\<lparr>error_type := Some ty\<rparr>) ?st1)"
    by (subst retry_loop.simps) (simp add: ec assms(3))
  then show ?thesis by (simp add: finish_fields)
qed

text \<open>
  The retry behaviour for a budget of at least one attempt: with a model that fails the
  same way on every call, a timeout is tried \<open>n\<close> times with delays \<open>1, 2, 4, ...\<close>
  between the attempts, a rate limit \<open>n\<close> times with delays \<open>5, 10, 15, ...\<close>, and any
  other exception once; each ends in its text.
\<close>

lemma chat_with_claude_uniform_failure:
  assumes "1 \<le> n"
    and "get_all_tools (session_manager st) \<noteq> []"
    and "\<forall>k r. messages_create e k r = Inl ex"
  shows "(ex = APITimeoutError \<longrightarrow>
            fst (chat_with_claude e msg n st)
              = Some (cross_mark @ '' Request timed out after '' @ str_int n @ '' attempts'')
            \<and> length (model_requests (snd (chat_with_claude e msg n st)))
                = length (model_requests st) + nat n
            \<and> sleeps (snd (chat_with_claude e msg n st))
                = sleeps st @ map (\<lambda>a. 2 ^ a) [0 ..< nat n - 1])
       \<and> (ex = RateLimitError \<longrightarrow>
            fst (chat_with_claude e msg n st)
              = Some (cross_mark @ '' Rate limit exceeded. Please try again later.'')
            \<and> length (model_requests (snd (chat_with_claude e msg n st)))
                = length (model_requests st) + nat n
            \<and> sleeps (snd (chat_with_claude e msg n st))
                = sleeps st @ map (\<lambda>a. 5 * (int a + 1)) [0 ..< nat n - 1])
       \<and> (\<forall>ty etext. ex = OtherError ty etext \<longrightarrow>
            fst (chat_with_claude e msg n st) = Some (cross_mark @ '' Error: '' @ etext)
            \<and> length (model_requests (snd (chat_with_claude e msg n st)))
                = length (model_requests st) + 1
            \<and> sleeps (snd (chat_with_claude e msg n st)) = sleeps st)"
proof -
  let ?st2 = "st\<lparr>clock_reads := Suc (Suc (clock_reads st))\<rparr>"
  define k where "k = nat n - 1"
  have k: "n - 0 = int (Suc k)" "nat n = Suc k"
    using assms(1) by (simp_all add: k_def)
  have tools: "get_all_tools (session_manager ?st2) \<noteq> []" using assms(2) by simp
  have z: "(0::int) \<le> 0" by simp
  show ?thesis
  proof (intro conjI impI allI)
    assume "ex = APITimeoutError"
    with assms(3) have all: "\<forall>k r. messages_create e k r = Inl APITimeoutError" by simp
    from retry_loop_timeouts [OF all tools z k(1)]
    show "fst (chat_with_claude e msg n st)
              = Some (cross_mark @ '' Request timed out after '' @ str_int n @ '' attempts'')"
      and "length (model_requests (snd (chat_with_claude e msg n st)))
                = length (model_requests st) + nat n"
      and "sleeps (snd (chat_with_claude e msg n st))
                = sleeps st @ map (\<lambda>a. 2 ^ a) [0 ..< nat n - 1]"
      by (simp_all add: chat_with_claude_unfold k(2))
  next
    assume "ex = RateLimitError"
    with assms(3) have all: "\<forall>k r. messages_create e k r = Inl RateLimitError" by simp
    from retry_loop_rate_limits [OF all tools z k(1)]
    show "fst (chat_with_claude e msg n st)
              = Some (cross_mark @ '' Rate limit exceeded. Please try again later.'')"
      and "length (model_requests (snd (chat_with_claude e msg n st)))
                = length (model_requests st) + nat n"
      and "sleeps (snd (chat_with_claude e msg n st))
                = sleeps st @ map (\<lambda>a. 5 * (int a + 1)) [0 ..< nat n - 1]"
      by (simp_all add: chat_with_claude_unfold k(2))
  next
    fix ty etext
    assume "ex = OtherError ty etext"
    with assms(3) have one: "messages_create e (length (model_requests ?st2))
           (make_request (conversation_history ?st2 @ [UserText msg])
              (Some (get_all_tools (session_manager ?st2)))) = Inl (OtherError ty etext)"
      by simp
    have lt: "(0::int) < n" using assms(1) by simp
    from retry_loop_other [OF tools one lt]
    show "fst (chat_with_claude e msg n st) = Some (cross_mark @ '' Error: '' @ etext)"
      and "length (model_requests (snd (chat_with_claude e msg n st)))
                = length (model_requests st) + 1"
      and "sleeps (snd (chat_with_claude e msg n st)) = sleeps st"
      by (simp_all add: chat_with_claude_unfold)
  qed
qed

text \<open>The default budget of three attempts against a model that always times out.\<close>

lemma chat_with_claude_three_timeouts:
  "fst (chat_with_claude example_env ''hello'' 3 example_client)
     = Some (cross_mark @ '' Request timed out after 3 attempts'')
   \<and> length (model_requests (snd (chat_with_claude example_env ''hello'' 3 example_client))) = 3
   \<and> sleeps (snd (chat_with_claude example_env ''hello'' 3 example_client)) = [1, 2]"
proof -
  have a: "(1::int) \<le> 3" by simp
  have b: "get_all_tools (session_manager example_client) \<noteq> []"
    by (simp add: example_client_def example_catalog)
  have c: "\<forall>k r. messages_create example_env k r = Inl APITimeoutError"
    by (simp add: example_env_def)
  have d: "str_int 3 = ''3''" by code_simp
  have l: "model_requests example_client = []" "sleeps example_client = []"
    by (simp_all add: example_client_def MCPClient_init_def)
  have u: "map (\<lambda>a. (2::int) ^ a) [0 ..< nat 3 - 1] = [1, 2]" by code_simp
  from chat_with_claude_uniform_failure [OF a b c, of "''hello''"]
  show ?thesis unfolding u by (simp add: d l)
qed

lemma retry_loop_one_metric:
  "n - attempt = int (Suc k) \<Longrightarrow>
   \<exists>mm. metrics_collector (snd (retry_loop e msg n attempt m st)) = metrics_collector st @ [mm]
        \<and> end_time mm \<noteq> None
        \<and> (success mm \<or> error_type mm \<noteq> None)
        \<and> request_id mm = request_id m \<and> start_time mm = start_time m
        \<and> fst (retry_loop e msg n attempt m st) \<noteq> None"
proof (induction k arbitrary: attempt st)
  case 0
  then have a: "attempt < n" "attempt = n - 1" by simp_all
  obtain r st1 where ec: "execute_chat e msg (request_id m) st = (r, st1)"
    by (cases "execute_chat e msg (request_id m) st")
  with execute_chat_frame [of e msg "request_id m" st]
  have fr: "metrics_collector st1 = metrics_collector st" by simp
  show ?case
  proof (cases r)
    case (Inr resp)
    then show ?thesis
      by (subst (1 2) retry_loop.simps) (simp add: ec a finish_fields fr)
  next
    case (Inl ex)
    then show ?thesis
      by (subst (1 2) retry_loop.simps) (cases ex; simp add: ec a finish_fields fr)
  qed
next
  case (Suc k)
  then have a: "attempt < n" "attempt \<noteq> n - 1" and b: "n - (attempt + 1) = int (Suc k)"
    by simp_all
  obtain r st1 where ec: "execute_chat e msg (request_id m) st = (r, st1)"
    by (cases "execute_chat e msg (request_id m) st")
  with execute_chat_frame [of e msg "request_id m" st]
  have fr: "metrics_collector st1 = metrics_collector st" by simp
  show ?case
  proof (cases r)
    case (Inr resp)
    then show ?thesis
      by (subst (1 2) retry_loop.simps) (simp add: ec a finish_fields fr)
  next
    case (Inl ex)
    show ?thesis
    proof (cases ex)
      case APITimeoutError
      have step: "retry_loop e msg n attempt m st =
                  retry_loop e msg n (attempt + 1) m
                    (st1\<lparr>sleeps := sleeps st1 @ [2 ^ nat attempt]\<rparr>)"
        by (subst retry_loop.simps) (simp add: ec a Inl APITimeoutError)
      from Suc.IH [OF b, of "st1\<lparr>sleeps := sleeps st1 @ [2 ^ nat attempt]\<rparr>"]
      show ?thesis unfolding step by (simp add: fr)
    next
      case RateLimitError
      have step: "retry_loop e msg n attempt m st =
                  retry_loop e msg n (attempt + 1) m
                    (st1\<lparr>sleeps := sleeps st1 @ [5 * (attempt + 1)]\<rparr>)"
        by (subst retry_loop.simps) (simp add: ec a Inl RateLimitError)
      from Suc.IH [OF b, of "st1\<lparr>sleeps := sleeps st1 @ [5 * (attempt + 1)]\<rparr>"]
      show ?thesis unfolding step by (simp add: fr)
    next
      case (OtherError ty etext)
      then show ?thesis
        by (subst (1 2) retry_loop.simps) (simp add: ec a Inl finish_fields fr)
    qed
  qed
qed

text \<open>
  With a budget of at least one attempt, whatever the model and the backends do, a send
  returns a text and appends exactly one metric, closed with an end time and an outcome.
\<close>

lemma chat_with_claude_one_metric:
  assumes "1 \<le> n"
  shows "\<exists>mm. metrics_collector (snd (chat_with_claude e msg n st)) = metrics_collector st @ [mm]
        \<and> end_time mm \<noteq> None
        \<and> (success mm \<or> error_type mm \<noteq> None)
        \<and> fst (chat_with_claude e msg n st) \<noteq> None"
proof -
  define k where "k = nat n - 1"
  have k: "n - 0 = int (Suc k)" using assms by (simp add: k_def)
  let ?m = "RequestMetrics_new
          (''req_'' @ str_int (trunc (to_double (time_time e (clock_reads st) * 1000))))
          (time_time e (Suc (clock_reads st)))"
  from retry_loop_one_metric [OF k, of e msg ?m "st\<lparr>clock_reads := Suc (Suc (clock_reads st))\<rparr>"]
  show ?thesis unfolding chat_with_claude_unfold by auto
qed

text \<open>
  With a budget of at least one attempt and an empty catalog, a send returns the
  diagnostic text, sends nothing to the model and records the request as a success
  with no error type.
\<close>

lemma chat_with_claude_no_tools:
  assumes "1 \<le> n" and "get_all_tools (session_manager st) = []"
  shows "fst (chat_with_claude e msg n st) = Some no_tools_text
       \<and> model_requests (snd (chat_with_claude e msg n st)) = model_requests st
       \<and> metrics_collector (snd (chat_with_claude e msg n st)) =
           metrics_collector st
           @ [\<lparr>request_id =
                 ''req_'' @ str_int (trunc (to_double (time_time e (clock_reads st) * 1000))),
               start_time = time_time e (Suc (clock_reads st)),
               end_time = Some (time_time e (Suc (Suc (clock_reads st)))),
               success = True, error_type = None, tools_called = [], token_usage = None\<rparr>]
       \<and> conversation_history (snd (chat_with_claude e msg n st))
           = conversation_history st @ [UserText msg]"
proof -
  have lt: "(0::int) < n" using assms(1) by simp
  let ?st2 = "st\<lparr>clock_reads := Suc (Suc (clock_reads st))\<rparr>"
  have ec: "execute_chat e msg rid ?st2 =
     (Inr no_tools_text,
      ?st2\<lparr>conversation_history := conversation_history ?st2 @ [UserText msg]\<rparr>)" for rid
    using execute_chat_no_tools [of ?st2 e msg rid] assms(2) by simp
  show ?thesis
    unfolding chat_with_claude_unfold
    by (subst (1 2 3 4) retry_loop.simps) (simp add: ec lt finish_fields RequestMetrics_new_def)
qed

text \<open>
  Claim C5. With a model that times out on every attempt, \<open>chat_with_claude\<close> should
  make exactly \<open>max_retries\<close> attempts and then return a text with the timeout marker.
  For \<open>max_retries = 0\<close> the range of the loop is empty: no attempt is made, nothing is
  slept, and the method ends without a \<open>return\<close>, so the caller gets \<open>None\<close> instead of a
  text, whatever the model would have done.
\<close>

theorem zero_budget_timeout_returns_none:
  "fst (chat_with_claude e user_message 0 st) = None
   \<and> model_requests (snd (chat_with_claude e user_message 0 st)) = model_requests st
   \<and> sleeps (snd (chat_with_claude e user_message 0 st)) = sleeps st"
  by (simp add: chat_with_claude_unfold retry_loop_exhausted)

text \<open>
  Claim C6. Every send should append exactly one closed metric, and with an empty
  catalog it should return the diagnostic text. For \<open>max_retries = 0\<close> the loop body
  never runs: the log is left as it was and the diagnostic text is not returned, with
  or without backends.
\<close>

theorem zero_budget_send_records_nothing:
  "metrics_collector (snd (chat_with_claude e user_message 0 st)) = metrics_collector st
   \<and> fst (chat_with_claude e user_message 0 st) \<noteq> Some no_tools_text"
  by (simp add: chat_with_claude_unfold retry_loop_exhausted)

end
